theory Spec2Isabelle
  imports Main "HOL-Library.Word"
begin

section \<open>JavaScript values, errors and buffers\<close>

text \<open>
  The front end (\<^verbatim>\<open>frontend/src/App.vue\<close>, second script block) keeps values that come
  out of JSON in its reactive objects.  The model keeps the four kinds of value the flows
  distinguish: \<^verbatim>\<open>undefined\<close>, \<^verbatim>\<open>null\<close>, whole numbers and strings.  Strict equality
  \<^verbatim>\<open>===\<close> on these is equality of the datatype.
\<close>

datatype jsval = Undefined | Null | Num int | Str string

text \<open>JavaScript truthiness, as used by \<^verbatim>\<open>if (x)\<close>, \<^verbatim>\<open>!x\<close> and \<^verbatim>\<open>x && y\<close>.\<close>

fun truthy :: "jsval \<Rightarrow> bool" where
  "truthy Undefined = False"
| "truthy Null = False"
| "truthy (Num n) = (n \<noteq> 0)"
| "truthy (Str s) = (s \<noteq> [])"

text \<open>A thrown JavaScript error: its class and its message.\<close>

datatype jserr = TypeError string | RangeError string | Error string

fun message :: "jserr \<Rightarrow> string" where
  "message (TypeError m) = m"
| "message (RangeError m) = m"
| "message (Error m) = m"

type_synonym bytes = "8 word list"

text \<open>
  Array read \<^verbatim>\<open>xs[i]\<close>: \<^verbatim>\<open>undefined\<close> (here \<open>None\<close>) outside the array, also for a
  negative index.
\<close>

definition js_nth :: "'a list \<Rightarrow> int \<Rightarrow> 'a option" where
  "js_nth xs i = (if 0 \<le> i \<and> nat i < length xs then Some (xs ! nat i) else None)"

section \<open>Session state\<close>

text \<open>The two wallet extensions the script knows.\<close>

datatype provider_name = UniSat | OKX

text \<open>
  One constructor per \<^verbatim>\<open>log(...)\<close> call site of the script; the arguments are the
  values interpolated into the message.  The helper \<^verbatim>\<open>log\<close> prefixes the wall-clock
  time, which the model leaves out.
\<close>

datatype logmsg =
    LogWsOpen
  | LogWsNotice jsval jsval
  | LogMatched
  | LogSettled jsval
  | LogActionRequired jsval
  | LogCreating
  | LogCreateFailed jsval jsval jsval
  | LogCreated jsval
  | LogDepositTo jsval
  | LogSending int
  | LogDepositBroadcast jsval
  | LogWaitMatch
  | LogFlowError string
  | LogCleaning
  | LogDeleted jsval
  | LogCleanupFailed string
  | LogRequestSig
  | LogSignedBroadcasting
  | LogBroadcastOk jsval
  | LogSignFailed string
  | LogClaimRequest
  | LogClaimFailed jsval
  | LogBatchBuilt
  | LogPsbtAssembled
  | LogClaimOk jsval
  | LogSwitchFailed provider_name string
  | LogConnected string jsval
  | LogMainnetWarning
  | LogConnectFailed string

text \<open>
  \<^verbatim>\<open>currentContract\<close>.  The object is declared with \<^verbatim>\<open>id\<close>, \<^verbatim>\<open>address\<close>,
  \<^verbatim>\<open>status\<close>, \<^verbatim>\<open>tx_hex\<close> and \<^verbatim>\<open>logs\<close>.  \<^verbatim>\<open>signAndBroadcast\<close> also reads
  \<^verbatim>\<open>currentContract.amount\<close>; \<open>c_amount\<close> is what that property read yields: \<open>None\<close>
  for \<^verbatim>\<open>undefined\<close> (the property is neither declared nor assigned anywhere in the
  script), \<open>Some n\<close> for a whole number \<open>n\<close>.
\<close>

record contract =
  c_id :: jsval
  c_address :: jsval
  c_status :: jsval
  c_tx_hex :: jsval
  c_logs :: "logmsg list"
  c_amount :: "int option"

definition currentContract_init :: contract where
  "currentContract_init =
     \<lparr>c_id = Null, c_address = Str [], c_status = Str [], c_tx_hex = Str [],
      c_logs = [], c_amount = None\<rparr>"

text \<open>\<^verbatim>\<open>wallet\<close>, together with the module variable \<^verbatim>\<open>currentProvider\<close>.\<close>

record wallet =
  w_connected :: bool
  w_address :: jsval
  w_publicKey :: jsval
  w_name :: string
  currentProvider :: "provider_name option"


text \<open>\<^verbatim>\<open>contractForm\<close>; the amount field is a number input holding whole satoshis.\<close>

record contractForm =
  f_amount :: int
  f_direction :: string

text \<open>\<^verbatim>\<open>log(msg)\<close>: \<^verbatim>\<open>currentContract.logs.unshift(...)\<close>, newest entry first.\<close>

definition log :: "logmsg \<Rightarrow> contract \<Rightarrow> contract" where
  "log msg c = c\<lparr>c_logs := msg # c_logs c\<rparr>"

section \<open>Transactions and PSBTs\<close>

record txin =
  tin_hash :: bytes
  tin_index :: nat
  tin_script :: bytes
  tin_sequence :: nat
  tin_witness :: "bytes list"

record txout =
  tout_script :: bytes
  tout_value :: int

record tx =
  tx_version :: int
  tx_locktime :: nat
  tx_ins :: "txin list"
  tx_outs :: "txout list"

record tapLeafScript =
  leafVersion :: nat
  leaf_script :: bytes
  controlBlock :: bytes

record tapScriptSig =
  sig_pubkey :: bytes
  sig_signature :: bytes
  sig_leafHash :: bytes

record psbt_input =
  pin_hash :: bytes
  pin_index :: nat
  witnessUtxo_script :: bytes
  witnessUtxo_value :: int
  pin_tapLeafScript :: "tapLeafScript list"
  pin_tapScriptSig :: "tapScriptSig list"
  pin_sighashType :: "nat option"

text \<open>An output is handed to \<^verbatim>\<open>addOutput\<close> by address or by script.\<close>

datatype psbt_output = OutAddress string int | OutScript bytes int

record psbt =
  psbt_inputs :: "psbt_input list"
  psbt_outputs :: "psbt_output list"

definition new_Psbt :: psbt where
  "new_Psbt = \<lparr>psbt_inputs = [], psbt_outputs = []\<rparr>"

section \<open>Collaborators\<close>

text \<open>
  A wallet extension as the flows use it.  \<open>signPsbt\<close> is the round trip
  \<^verbatim>\<open>Psbt.fromHex(await signPsbt(psbt.toHex()))\<close>: the error covers a refusal of the
  wallet and a reply that does not parse.
\<close>

record provider =
  getNetwork :: "jserr + string"
  switchNetwork :: "string \<Rightarrow> jserr option"
  requestAccounts :: "jserr + jsval list"
  getPublicKey :: "jserr + jsval"
  signPsbt :: "psbt \<Rightarrow> jserr + psbt"
  pushTx :: "string \<Rightarrow> jserr + jsval"
  sendBitcoin :: "jsval \<Rightarrow> int \<Rightarrow> jserr + jsval"

text \<open>The reply of \<^verbatim>\<open>POST /create_contract\<close>.\<close>

record create_reply =
  cr_status :: jsval
  cr_contract_id :: jsval
  cr_deposit_address :: jsval

text \<open>
  One entry of \<^verbatim>\<open>psbt_inputs\<close> in the reply of \<^verbatim>\<open>POST /claim_all\<close>.  Hex strings are
  shown as the buffers \<^verbatim>\<open>Buffer.from(_, 'hex')\<close> makes of them; a missing
  \<^verbatim>\<open>tapLeafScript\<close> or \<^verbatim>\<open>oracleSig\<close> object is \<open>None\<close>.
\<close>

record input_meta =
  m_index :: int
  m_scriptPubKey :: bytes
  m_value :: int
  m_tapLeafScript :: "tapLeafScript option"
  m_oracleSig :: "tapScriptSig option"

record claim_reply =
  cl_status :: jsval
  cl_message :: jsval
  cl_unsigned_tx_hex :: jsval
  cl_psbt_inputs :: "input_meta list"

text \<open>
  Everything outside the script: the two wallet globals, the backend, and the operations
  of the Bitcoin library whose results the script only passes on.  The three \<open>lib_check\<close>
  fields stand for whatever further validation the library applies in \<^verbatim>\<open>addInput\<close>,
  \<^verbatim>\<open>updateInput\<close> and \<^verbatim>\<open>addOutput\<close> (\<open>Some e\<close>: it throws \<open>e\<close>).
\<close>

record env =
  window_unisat :: "provider option"
  window_okxwallet :: "provider option"
  fromHex :: "string \<Rightarrow> jserr + tx"
  toHex :: "tx \<Rightarrow> string"
  toOutputScript :: "string \<Rightarrow> jserr + bytes"
  fromOutputScript :: "bytes \<Rightarrow> jserr + string"
  lib_check_addInput :: "psbt \<Rightarrow> psbt_input \<Rightarrow> jserr option"
  lib_check_updateInput :: "psbt \<Rightarrow> nat \<Rightarrow> tapScriptSig \<Rightarrow> jserr option"
  lib_check_addOutput :: "psbt \<Rightarrow> psbt_output \<Rightarrow> jserr option"
  finalizeInput :: "nat \<Rightarrow> psbt_input \<Rightarrow> jserr + bytes list"
  extractTransaction :: "psbt \<Rightarrow> bytes list list \<Rightarrow> jserr + tx"
  post_create_contract :: "jsval \<Rightarrow> int \<Rightarrow> string \<Rightarrow> jserr + create_reply"
  post_cancel_contract :: "jsval \<Rightarrow> jserr option"
  post_claim_all :: "jsval \<Rightarrow> jserr + claim_reply"

text \<open>What an operation does to the outside, in order.\<close>

datatype alert_text =
    NoTransactionToSign
  | ContractAddressMissing
  | ConnectWalletFirst
  | InstallAWallet
  | MainnetDetected

datatype call =
    Alert alert_text
  | SwitchNetwork provider_name string
  | FetchStats
  | FetchUserContracts
  | FetchCreateContract jsval int string
  | FetchCancelContract jsval
  | FetchClaimAll jsval
  | SendBitcoin jsval int
  | SetTimeoutMatch nat
  | SignPsbt psbt
  | PushTx string

fun is_PushTx :: "call \<Rightarrow> bool" where
  "is_PushTx (PushTx h) = True"
| "is_PushTx _ = False"

fun is_SignPsbt :: "call \<Rightarrow> bool" where
  "is_SignPsbt (SignPsbt p) = True"
| "is_SignPsbt _ = False"

section \<open>The push channel\<close>

text \<open>A parsed event \<^verbatim>\<open>data\<close>; a field the event does not carry is \<open>Undefined\<close>.\<close>

record event =
  ev_type :: jsval
  ev_contract_id :: jsval
  ev_result :: jsval
  ev_status :: jsval
  ev_tx_hex :: jsval
  ev_message :: jsval

text \<open>\<^verbatim>\<open>ws.onmessage\<close>, after \<^verbatim>\<open>JSON.parse\<close>.\<close>

definition onmessage :: "event \<Rightarrow> contract \<Rightarrow> contract" where
  "onmessage data c0 =
     (let c = log (LogWsNotice (ev_type data) (ev_contract_id data)) c0 in
      if truthy (c_id c) \<and> ev_contract_id data = c_id c then
        if ev_type data = Str ''MATCHED'' then
          log LogMatched (c\<lparr>c_status := Str ''MATCHED''\<rparr>)
        else if ev_type data = Str ''SETTLED'' then
          log (LogSettled (ev_result data)) (c\<lparr>c_status := ev_result data\<rparr>)
        else if ev_type data = Str ''ACTION_REQUIRED'' then
          log (LogActionRequired (ev_message data))
            (c\<lparr>c_status := ev_status data, c_tx_hex := ev_tx_hex data\<rparr>)
        else c
      else c)"

section \<open>Library operations the script relies on\<close>

text \<open>Sequencing of steps that may throw: the first error ends the sequence.\<close>

fun andThen :: "jserr + 'a \<Rightarrow> ('a \<Rightarrow> jserr + 'b) \<Rightarrow> jserr + 'b" where
  "andThen (Inl e) f = Inl e"
| "andThen (Inr x) f = f x"

text \<open>Decimal text of a number, as a template literal renders it.\<close>

fun show_nat :: "nat \<Rightarrow> string" where
  "show_nat n =
     (if n < 10 then [char_of (48 + n)]
      else show_nat (n div 10) @ [char_of (48 + n mod 10)])"

declare show_nat.simps [simp del]

definition show_int :: "int \<Rightarrow> string" where
  "show_int i = (if i < 0 then CHR ''-'' # show_nat (nat (- i)) else show_nat (nat i))"

fun js_text :: "jsval \<Rightarrow> string" where
  "js_text Undefined = ''undefined''"
| "js_text Null = ''null''"
| "js_text (Num n) = show_int n"
| "js_text (Str s) = s"

text \<open>
  \<^verbatim>\<open>Transaction.fromHex(x)\<close>: the library parses a string and throws on anything else.
\<close>

definition parse_tx :: "env \<Rightarrow> jsval \<Rightarrow> jserr + tx" where
  "parse_tx env x =
     (case x of Str s \<Rightarrow> fromHex env s
      | _ \<Rightarrow> Inl (TypeError ''The first argument must be of type string''))"

text \<open>
  \<^verbatim>\<open>psbt.addInput\<close>: the library appends the input, after its own validation; it
  refuses an outpoint that the PSBT already spends.
\<close>

definition outpoint :: "psbt_input \<Rightarrow> bytes \<times> nat" where
  "outpoint inp = (pin_hash inp, pin_index inp)"

definition addInput :: "env \<Rightarrow> psbt \<Rightarrow> psbt_input \<Rightarrow> jserr + psbt" where
  "addInput env p inp =
     (case lib_check_addInput env p inp of
        Some e \<Rightarrow> Inl e
      | None \<Rightarrow>
          if outpoint inp \<in> set (map outpoint (psbt_inputs p))
          then Inl (Error ''Duplicate input detected.'')
          else Inr (p\<lparr>psbt_inputs := psbt_inputs p @ [inp]\<rparr>))"

text \<open>
  \<^verbatim>\<open>psbt.updateInput(i, {tapScriptSig: [s]})\<close>: the library first reads the Taproot
  fields of PSBT input \<open>i\<close>, which throws a \<^verbatim>\<open>TypeError\<close> when the PSBT has no input
  of that number; otherwise, after its validation, it adds the signature record to that
  input.
\<close>

definition updateInput :: "env \<Rightarrow> psbt \<Rightarrow> int \<Rightarrow> tapScriptSig \<Rightarrow> jserr + psbt" where
  "updateInput env p i s =
     (case js_nth (psbt_inputs p) i of
        None \<Rightarrow>
          Inl (TypeError ''Cannot read properties of undefined (reading tapMerkleRoot)'')
      | Some inp \<Rightarrow>
          (case lib_check_updateInput env p (nat i) s of
             Some e \<Rightarrow> Inl e
           | None \<Rightarrow>
               Inr (p\<lparr>psbt_inputs :=
                        (psbt_inputs p)[nat i :=
                           inp\<lparr>pin_tapScriptSig := pin_tapScriptSig inp @ [s]\<rparr>]\<rparr>)))"

definition addOutput :: "env \<Rightarrow> psbt \<Rightarrow> psbt_output \<Rightarrow> jserr + psbt" where
  "addOutput env p out =
     (case lib_check_addOutput env p out of
        Some e \<Rightarrow> Inl e
      | None \<Rightarrow> Inr (p\<lparr>psbt_outputs := psbt_outputs p @ [out]\<rparr>))"

text \<open>
  \<^verbatim>\<open>psbt.finalizeAllInputs()\<close>: the library finalizes input 0, 1, ... in turn and
  throws at the first input that it cannot finalize; a PSBT with no input is refused.
  The result lists the final witness stack of every input.
\<close>

fun finalize_from :: "env \<Rightarrow> nat \<Rightarrow> psbt_input list \<Rightarrow> jserr + bytes list list" where
  "finalize_from env k [] = Inr []"
| "finalize_from env k (inp # rest) =
     (case finalizeInput env k inp of
        Inl e \<Rightarrow> Inl e
      | Inr w \<Rightarrow>
          (case finalize_from env (Suc k) rest of
             Inl e \<Rightarrow> Inl e
           | Inr ws \<Rightarrow> Inr (w # ws)))"

definition finalizeAllInputs :: "env \<Rightarrow> psbt \<Rightarrow> jserr + bytes list list" where
  "finalizeAllInputs env p =
     (if psbt_inputs p = [] then Inl (Error ''No input #0'')
      else finalize_from env 0 (psbt_inputs p))"

section \<open>Single-contract signing\<close>

text \<open>\<^verbatim>\<open>BigInt(currentContract.amount * 2)\<close>: \<^verbatim>\<open>undefined * 2\<close> is \<^verbatim>\<open>NaN\<close>.\<close>

definition BigInt_NaN :: jserr where
  "BigInt_NaN =
     RangeError ''The number NaN cannot be converted to a BigInt because it is not an integer''"

definition BigInt_times2 :: "int option \<Rightarrow> jserr + int" where
  "BigInt_times2 a = (case a of None \<Rightarrow> Inl BigInt_NaN | Some n \<Rightarrow> Inr (n * 2))"

text \<open>
  The inner \<^verbatim>\<open>try\<close> around \<^verbatim>\<open>address.toOutputScript(currentContract.address, testnet)\<close>:
  whatever the decoder throws becomes the error of the script.
\<close>

definition InvalidAddress :: "jsval \<Rightarrow> jserr" where
  "InvalidAddress a = Error (''Invalid address for Testnet: '' @ js_text a)"

definition address_script :: "env \<Rightarrow> jsval \<Rightarrow> jserr + bytes" where
  "address_script env a =
     (case a of
        Str s \<Rightarrow>
          (case toOutputScript env s of
             Inl e \<Rightarrow> Inl (InvalidAddress a)
           | Inr b \<Rightarrow> Inr b)
      | _ \<Rightarrow> Inl (InvalidAddress a))"

text \<open>
  Steps 1 to 3 of \<^verbatim>\<open>signAndBroadcast\<close>: parse the pending transaction, read the
  witness of input 0 and its last two elements, and build the PSBT of one input and one
  output.  A witness shorter than two elements gives \<^verbatim>\<open>undefined\<close> for the script, which
  the library's \<^verbatim>\<open>addInput\<close> refuses.
\<close>

definition build_single :: "env \<Rightarrow> contract \<Rightarrow> jserr + (tx \<times> bytes list \<times> psbt)" where
  "build_single env c =
     andThen (parse_tx env (c_tx_hex c)) (\<lambda>t.
       case js_nth (tx_ins t) 0 of
         None \<Rightarrow> Inl (TypeError ''Cannot read properties of undefined (reading witness)'')
       | Some in0 \<Rightarrow>
           let witness = tin_witness in0;
               script = js_nth witness (int (length witness) - 2);
               control = js_nth witness (int (length witness) - 1)
           in
           andThen (BigInt_times2 (c_amount c)) (\<lambda>value.
           andThen (address_script env (c_address c)) (\<lambda>scriptPubKey.
             case (script, control) of
               (Some s, Some cb) \<Rightarrow>
                 andThen (addInput env new_Psbt
                   \<lparr>pin_hash = tin_hash in0, pin_index = tin_index in0,
                    witnessUtxo_script = scriptPubKey, witnessUtxo_value = value,
                    pin_tapLeafScript =
                      [\<lparr>leafVersion = 192, leaf_script = s, controlBlock = cb\<rparr>],
                    pin_tapScriptSig = [], pin_sighashType = Some 0\<rparr>) (\<lambda>p1.
                 case js_nth (tx_outs t) 0 of
                   None \<Rightarrow>
                     Inl (TypeError ''Cannot read properties of undefined (reading script)'')
                 | Some out0 \<Rightarrow>
                     andThen (fromOutputScript env (tout_script out0)) (\<lambda>a.
                     andThen (addOutput env p1 (OutAddress a (tout_value out0))) (\<lambda>p2.
                       Inr (t, witness, p2))))
             | _ \<Rightarrow> Inl (Error ''Data for input key tapLeafScript is incorrect''))))"

text \<open>Step 5: the first script-path signature of input 0 of the signed PSBT.\<close>

definition NoSignatureReturned :: jserr where
  "NoSignatureReturned = Error ''No signature returned from wallet''"

definition extract_userSig :: "psbt \<Rightarrow> jserr + bytes" where
  "extract_userSig signedPsbt =
     (case psbt_inputs signedPsbt of
        [] \<Rightarrow> Inl (TypeError ''Cannot read properties of undefined (reading tapScriptSig)'')
      | inp # _ \<Rightarrow>
          (case pin_tapScriptSig inp of
             [] \<Rightarrow> Inl NoSignatureReturned
           | s # _ \<Rightarrow> Inr (sig_signature s)))"

text \<open>
  Step 6, the loop \<^verbatim>\<open>for (let i = 0; i < witness.length - 2; i++)\<close>: the first empty
  element before the last two receives the signature and the loop stops; \<open>None\<close> is
  \<^verbatim>\<open>inserted === false\<close>.
\<close>

function insert_from :: "nat \<Rightarrow> bytes \<Rightarrow> bytes list \<Rightarrow> bytes list option" where
  "insert_from i userSig witness =
     (if int i < int (length witness) - 2 then
        if length (witness ! i) = 0 then Some (witness[i := userSig])
        else insert_from (Suc i) userSig witness
      else None)"
  by pat_completeness auto
termination
  by (relation "measure (\<lambda>(i, userSig, witness). length witness - i)") auto

declare insert_from.simps [simp del]

definition NoPlaceholderAvailable :: jserr where
  "NoPlaceholderAvailable =
     Error ''Could not find placeholder for signature in witness stack''"

text \<open>
  \<^verbatim>\<open>witness\<close> is the array held by \<^verbatim>\<open>tx.ins[0]\<close>, so the assignment in the loop
  changes the transaction that \<^verbatim>\<open>tx.toHex()\<close> serializes.
\<close>

definition set_witness0 :: "tx \<Rightarrow> bytes list \<Rightarrow> tx" where
  "set_witness0 t w =
     t\<lparr>tx_ins := (case tx_ins t of [] \<Rightarrow> []
                  | in0 # rest \<Rightarrow> in0\<lparr>tin_witness := w\<rparr> # rest)\<rparr>"

text \<open>The \<^verbatim>\<open>catch\<close> block of \<^verbatim>\<open>signAndBroadcast\<close>.\<close>

definition sign_failed :: "jserr \<Rightarrow> contract \<Rightarrow> contract" where
  "sign_failed e c = log (LogSignFailed (message e)) c"

definition no_unisat :: jserr where
  "no_unisat = TypeError ''Cannot read properties of undefined (reading signPsbt)''"

definition signAndBroadcast :: "env \<Rightarrow> contract \<Rightarrow> contract \<times> call list" where
  "signAndBroadcast env c =
     (if \<not> truthy (c_tx_hex c) then (c, [Alert NoTransactionToSign])
      else if \<not> truthy (c_address c) then (c, [Alert ContractAddressMissing])
      else
        let c1 = log LogRequestSig c in
        case build_single env c1 of
          Inl e \<Rightarrow> (sign_failed e c1, [])
        | Inr (t, witness, p) \<Rightarrow>
            (case window_unisat env of
               None \<Rightarrow> (sign_failed no_unisat c1, [])
             | Some w \<Rightarrow>
                 (case andThen (signPsbt w p) extract_userSig of
                    Inl e \<Rightarrow> (sign_failed e c1, [SignPsbt p])
                  | Inr userSig \<Rightarrow>
                      (case insert_from 0 userSig witness of
                         None \<Rightarrow> (sign_failed NoPlaceholderAvailable c1, [SignPsbt p])
                       | Some witness' \<Rightarrow>
                           let finalTxHex = toHex env (set_witness0 t witness');
                               c2 = log LogSignedBroadcasting c1
                           in
                           (case pushTx w finalTxHex of
                              Inl e \<Rightarrow>
                                (sign_failed e c2, [SignPsbt p, PushTx finalTxHex])
                            | Inr txid \<Rightarrow>
                                ((log (LogBroadcastOk txid) c2)
                                   \<lparr>c_status := Str ''SETTLED_WIN''\<rparr>,
                                 [SignPsbt p, PushTx finalTxHex]))))))"

section \<open>Batch claim\<close>

text \<open>
  One turn of the loop \<^verbatim>\<open>for (const inputData of data.psbt_inputs)\<close>: the input is
  taken from \<^verbatim>\<open>tx.ins[inputData.index]\<close> and appended to the PSBT, then the oracle's
  signature is attached to PSBT input number \<^verbatim>\<open>inputData.index\<close>.
\<close>

definition add_claim_input :: "env \<Rightarrow> tx \<Rightarrow> psbt \<Rightarrow> input_meta \<Rightarrow> jserr + psbt" where
  "add_claim_input env t p inputData =
     (let i = m_index inputData in
      case js_nth (tx_ins t) i of
        None \<Rightarrow> Inl (TypeError ''Cannot read properties of undefined (reading hash)'')
      | Some txi \<Rightarrow>
          (case m_tapLeafScript inputData of
             None \<Rightarrow>
               Inl (TypeError ''Cannot read properties of undefined (reading leafVersion)'')
           | Some leaf \<Rightarrow>
               andThen (addInput env p
                 \<lparr>pin_hash = tin_hash txi, pin_index = tin_index txi,
                  witnessUtxo_script = m_scriptPubKey inputData,
                  witnessUtxo_value = m_value inputData,
                  pin_tapLeafScript = [leaf],
                  pin_tapScriptSig = [], pin_sighashType = None\<rparr>) (\<lambda>p1.
               case m_oracleSig inputData of
                 None \<Rightarrow>
                   Inl (TypeError ''Cannot read properties of undefined (reading pubkey)'')
               | Some s \<Rightarrow> updateInput env p1 i s)))"

text \<open>
  What one turn leaves in the PSBT when it succeeds: the outpoint of a transaction
  input, the backend's UTXO and leaf data, and the oracle's signature.
\<close>

definition claim_input ::
  "txin \<Rightarrow> input_meta \<Rightarrow> tapLeafScript \<Rightarrow> tapScriptSig \<Rightarrow> psbt_input" where
  "claim_input txi inputData leaf s =
     \<lparr>pin_hash = tin_hash txi, pin_index = tin_index txi,
      witnessUtxo_script = m_scriptPubKey inputData,
      witnessUtxo_value = m_value inputData,
      pin_tapLeafScript = [leaf], pin_tapScriptSig = [s], pin_sighashType = None\<rparr>"

text \<open>
  The error that section 4.2 of the specification names for a metadata index that does
  not match its position.  No statement of the script raises it.
\<close>

definition InputIndexMismatch :: jserr where
  "InputIndexMismatch = Error ''InputIndexMismatch''"

fun add_claim_inputs :: "env \<Rightarrow> tx \<Rightarrow> psbt \<Rightarrow> input_meta list \<Rightarrow> jserr + psbt" where
  "add_claim_inputs env t p [] = Inr p"
| "add_claim_inputs env t p (inputData # rest) =
     (case add_claim_input env t p inputData of
        Inl e \<Rightarrow> Inl e
      | Inr p' \<Rightarrow> add_claim_inputs env t p' rest)"

text \<open>\<^verbatim>\<open>tx.outs.forEach(out => psbt.addOutput({script, value}))\<close>.\<close>

fun add_outputs :: "env \<Rightarrow> psbt \<Rightarrow> txout list \<Rightarrow> jserr + psbt" where
  "add_outputs env p [] = Inr p"
| "add_outputs env p (out # rest) =
     (case addOutput env p (OutScript (tout_script out) (tout_value out)) of
        Inl e \<Rightarrow> Inl e
      | Inr p' \<Rightarrow> add_outputs env p' rest)"

text \<open>From the backend's reply to the assembled PSBT.\<close>

definition claim_build :: "env \<Rightarrow> claim_reply \<Rightarrow> jserr + psbt" where
  "claim_build env data =
     (if \<not> truthy (cl_unsigned_tx_hex data)
      then Inl (Error ''Backend returned empty transaction hex'')
      else
        andThen (parse_tx env (cl_unsigned_tx_hex data)) (\<lambda>t.
        andThen (add_claim_inputs env t new_Psbt (cl_psbt_inputs data)) (\<lambda>p.
        add_outputs env p (tx_outs t))))"

text \<open>From the signed PSBT to the hex of the final transaction.\<close>

definition claim_finalize :: "env \<Rightarrow> psbt \<Rightarrow> jserr + string" where
  "claim_finalize env signedPsbt =
     andThen (finalizeAllInputs env signedPsbt) (\<lambda>ws.
     andThen (extractTransaction env signedPsbt ws) (\<lambda>finalTx.
     Inr (toHex env finalTx)))"

text \<open>The \<^verbatim>\<open>catch\<close> block of \<^verbatim>\<open>claimAll\<close>.\<close>

definition claim_failed :: "jserr \<Rightarrow> contract \<Rightarrow> contract" where
  "claim_failed e c = log (LogClaimFailed (Str (message e))) c"

definition claimAll :: "env \<Rightarrow> wallet \<Rightarrow> contract \<Rightarrow> contract \<times> call list" where
  "claimAll env wl c =
     (if \<not> truthy (w_publicKey wl) then (c, [])
      else
        let c1 = log LogClaimRequest c;
            req = FetchClaimAll (w_publicKey wl)
        in
        case post_claim_all env (w_publicKey wl) of
          Inl e \<Rightarrow> (claim_failed e c1, [req])
        | Inr data \<Rightarrow>
            if cl_status data = Str ''error''
            then (log (LogClaimFailed (cl_message data)) c1, [req])
            else
              let c2 = log LogBatchBuilt c1 in
              case claim_build env data of
                Inl e \<Rightarrow> (claim_failed e c2, [req])
              | Inr p \<Rightarrow>
                  let c3 = log LogPsbtAssembled c2 in
                  (case window_unisat env of
                     None \<Rightarrow> (claim_failed no_unisat c3, [req])
                   | Some w \<Rightarrow>
                       (case andThen (signPsbt w p) (claim_finalize env) of
                          Inl e \<Rightarrow> (claim_failed e c3, [req, SignPsbt p])
                        | Inr finalTxHex \<Rightarrow>
                            let c4 = log LogSignedBroadcasting c3 in
                            (case pushTx w finalTxHex of
                               Inl e \<Rightarrow>
                                 (claim_failed e c4, [req, SignPsbt p, PushTx finalTxHex])
                             | Inr txid \<Rightarrow>
                                 (log (LogClaimOk txid) c4,
                                  [req, SignPsbt p, PushTx finalTxHex])))))"

section \<open>Create and deposit\<close>

definition provider_of :: "env \<Rightarrow> provider_name option \<Rightarrow> provider option" where
  "provider_of env n =
     (case n of
        None \<Rightarrow> None
      | Some UniSat \<Rightarrow> window_unisat env
      | Some OKX \<Rightarrow> window_okxwallet env)"

text \<open>The \<^verbatim>\<open>catch\<close> block of \<^verbatim>\<open>createAndDeposit\<close>.\<close>

definition createAndDeposit_catch :: "env \<Rightarrow> jserr \<Rightarrow> contract \<Rightarrow> contract \<times> call list" where
  "createAndDeposit_catch env e c =
     (let c1 = log (LogFlowError (message e)) c in
      if truthy (c_id c1) then
        let c2 = log LogCleaning c1;
            c3 = (case post_cancel_contract env (c_id c2) of
                    None \<Rightarrow> log (LogDeleted (c_id c2)) c2
                  | Some cleanupError \<Rightarrow> log (LogCleanupFailed (message cleanupError)) c2)
        in (c3\<lparr>c_id := Null, c_address := Str [], c_status := Str []\<rparr>,
            [FetchCancelContract (c_id c2)])
      else (c1, []))"

definition createAndDeposit ::
  "env \<Rightarrow> wallet \<Rightarrow> contractForm \<Rightarrow> contract \<Rightarrow> contract \<times> call list" where
  "createAndDeposit env wl form c =
     (if \<not> w_connected wl then (c, [Alert ConnectWalletFirst])
      else
        let c1 = log LogCreating c;
            req = FetchCreateContract (w_publicKey wl) (f_amount form) (f_direction form)
        in
        case post_create_contract env (w_publicKey wl) (f_amount form) (f_direction form) of
          Inl e \<Rightarrow>
            (case createAndDeposit_catch env e c1 of (c', calls) \<Rightarrow> (c', req # calls))
        | Inr data \<Rightarrow>
            if cr_status data \<noteq> Str ''success''
            then (log (LogCreateFailed (cr_status data) (cr_contract_id data)
                         (cr_deposit_address data)) c1, [req])
            else
              let c2 = c1\<lparr>c_id := cr_contract_id data,
                          c_address := cr_deposit_address data,
                          c_status := Str ''CREATED''\<rparr>;
                  c3 = log (LogCreated (cr_contract_id data)) c2;
                  c4 = log (LogDepositTo (cr_deposit_address data)) c3;
                  c5 = log (LogSending (f_amount form)) c4
              in
              (case provider_of env (currentProvider wl) of
                 None \<Rightarrow>
                   (case createAndDeposit_catch env
                           (TypeError ''Cannot read properties of null (reading sendBitcoin)'') c5
                    of (c', calls) \<Rightarrow> (c', req # calls))
               | Some pr \<Rightarrow>
                   let send = SendBitcoin (c_address c5) (f_amount form) in
                   (case sendBitcoin pr (c_address c5) (f_amount form) of
                      Inl e \<Rightarrow>
                        (case createAndDeposit_catch env e c5 of
                           (c', calls) \<Rightarrow> (c', req # send # calls))
                    | Inr txid \<Rightarrow>
                        (log LogWaitMatch (log (LogDepositBroadcast txid) c5),
                         [req, send, SetTimeoutMatch 3000]))))"

section \<open>Connecting a wallet\<close>

text \<open>
  The provider is \<^verbatim>\<open>window.unisat\<close> when that exists, else \<^verbatim>\<open>window.okxwallet.bitcoin\<close>.
  A failure to switch the network is only logged.  An address that begins with
  \<^verbatim>\<open>bc1\<close> is answered with a warning and an alert, and the wallet stays connected; on
  an address that is not text, \<^verbatim>\<open>startsWith\<close> throws after the wallet was marked
  connected.  \<^verbatim>\<open>fetchStats\<close> and \<^verbatim>\<open>fetchUserContracts\<close> are started and not awaited.
\<close>

definition switch_unisat :: "provider \<Rightarrow> contract \<Rightarrow> contract \<times> call list" where
  "switch_unisat pr c =
     (case getNetwork pr of
        Inl e \<Rightarrow> (log (LogSwitchFailed UniSat (message e)) c, [])
      | Inr net \<Rightarrow>
          if net \<noteq> ''testnet'' then
            (case switchNetwork pr ''testnet'' of
               Some e \<Rightarrow>
                 (log (LogSwitchFailed UniSat (message e)) c, [SwitchNetwork UniSat ''testnet''])
             | None \<Rightarrow> (c, [SwitchNetwork UniSat ''testnet'']))
          else (c, []))"

definition switch_okx :: "provider \<Rightarrow> contract \<Rightarrow> contract \<times> call list" where
  "switch_okx pr c =
     (case switchNetwork pr ''testnet'' of
        Some e \<Rightarrow> (log (LogSwitchFailed OKX (message e)) c, [SwitchNetwork OKX ''testnet''])
      | None \<Rightarrow> (c, [SwitchNetwork OKX ''testnet'']))"

definition display_name :: "provider_name \<Rightarrow> string" where
  "display_name n = (case n of UniSat \<Rightarrow> ''UniSat Wallet'' | OKX \<Rightarrow> ''OKX Wallet'')"

definition connect_accounts ::
  "provider_name \<Rightarrow> provider \<Rightarrow> wallet \<Rightarrow> contract \<Rightarrow> call list
     \<Rightarrow> wallet \<times> contract \<times> call list" where
  "connect_accounts n pr wl c calls =
     (case requestAccounts pr of
        Inl e \<Rightarrow> (wl, log (LogConnectFailed (message e)) c, calls)
      | Inr accounts \<Rightarrow>
          let wl1 = wl\<lparr>w_address := (case accounts of [] \<Rightarrow> Undefined | a # _ \<Rightarrow> a)\<rparr> in
          (case getPublicKey pr of
             Inl e \<Rightarrow> (wl1, log (LogConnectFailed (message e)) c, calls)
           | Inr pk \<Rightarrow>
               let wl2 = wl1\<lparr>w_publicKey := pk, currentProvider := Some n,
                             w_name := display_name n, w_connected := True\<rparr>;
                   c1 = log (LogConnected (display_name n) (w_address wl2)) c
               in
               (case w_address wl2 of
                  Str a \<Rightarrow>
                    if take 3 a = ''bc1''
                    then (wl2, log LogMainnetWarning c1,
                          calls @ [Alert MainnetDetected, FetchStats, FetchUserContracts])
                    else (wl2, c1, calls @ [FetchStats, FetchUserContracts])
                | Num n \<Rightarrow>
                    (wl2,
                     log (LogConnectFailed ''wallet.address.startsWith is not a function'') c1,
                     calls)
                | _ \<Rightarrow>
                    (wl2,
                     log (LogConnectFailed
                            ''Cannot read properties of undefined (reading startsWith)'') c1,
                     calls))))"

definition connectWallet :: "env \<Rightarrow> wallet \<Rightarrow> contract \<Rightarrow> wallet \<times> contract \<times> call list" where
  "connectWallet env wl c =
     (case window_unisat env of
        Some pr \<Rightarrow>
          (case switch_unisat pr c of (c1, calls) \<Rightarrow> connect_accounts UniSat pr wl c1 calls)
      | None \<Rightarrow>
          (case window_okxwallet env of
             Some pr \<Rightarrow>
               (case switch_okx pr c of (c1, calls) \<Rightarrow> connect_accounts OKX pr wl c1 calls)
           | None \<Rightarrow> (wl, c, [Alert InstallAWallet])))"

section \<open>Worked inputs\<close>



definition fx_script :: bytes where
  "fx_script = [32, 1, 172]"

definition fx_control :: bytes where
  "fx_control = [192, 2]"

definition fx_oracle_sig :: tapScriptSig where
  "fx_oracle_sig = \<lparr>sig_pubkey = [3], sig_signature = [7, 7], sig_leafHash = [5]\<rparr>"

definition fx_user_sig :: tapScriptSig where
  "fx_user_sig = \<lparr>sig_pubkey = [2], sig_signature = [9, 9], sig_leafHash = [5]\<rparr>"

definition fx_leaf :: tapLeafScript where
  "fx_leaf = \<lparr>leafVersion = 192, leaf_script = fx_script, controlBlock = fx_control\<rparr>"

text \<open>
  A pending settlement transaction: one input whose witness is an empty slot, the peer
  signature, the leaf script and the control block.
\<close>

definition fx_in0 :: txin where
  "fx_in0 =
     \<lparr>tin_hash = [1], tin_index = 0, tin_script = [], tin_sequence = 4294967295,
      tin_witness = [[], [7, 7], fx_script, fx_control]\<rparr>"

definition fx_tx :: tx where
  "fx_tx =
     \<lparr>tx_version = 2, tx_locktime = 0, tx_ins = [fx_in0],
      tx_outs = [\<lparr>tout_script = [0, 20], tout_value = 1900\<rparr>]\<rparr>"

text \<open>The same transaction with both signature slots already filled.\<close>

definition fx_tx_full :: tx where
  "fx_tx_full =
     fx_tx\<lparr>tx_ins := [fx_in0\<lparr>tin_witness := [[8, 8], [7, 7], fx_script, fx_control]\<rparr>]\<rparr>"

text \<open>An unsigned claim-all transaction with two inputs.\<close>

definition fx_batch_tx :: tx where
  "fx_batch_tx =
     \<lparr>tx_version = 2, tx_locktime = 0,
      tx_ins =
        [\<lparr>tin_hash = [1], tin_index = 0, tin_script = [], tin_sequence = 4294967295,
          tin_witness = []\<rparr>,
         \<lparr>tin_hash = [1], tin_index = 1, tin_script = [], tin_sequence = 4294967295,
          tin_witness = []\<rparr>],
      tx_outs = [\<lparr>tout_script = [0, 20], tout_value = 3800\<rparr>]\<rparr>"

definition fx_meta :: "int \<Rightarrow> input_meta" where
  "fx_meta i =
     \<lparr>m_index = i, m_scriptPubKey = [81, 32], m_value = 2000,
      m_tapLeafScript = Some fx_leaf, m_oracleSig = Some fx_oracle_sig\<rparr>"

definition fx_claim_reply :: claim_reply where
  "fx_claim_reply =
     \<lparr>cl_status = Str ''success'', cl_message = Undefined,
      cl_unsigned_tx_hex = Str ''batchtx'', cl_psbt_inputs = [fx_meta 0, fx_meta 1]\<rparr>"

text \<open>
  A finalizer for the worked inputs that accepts what the PSBT library's accepts: an
  input needs a leaf script and at least one script-path signature, and its final
  witness is the signatures it carries, the leaf script and the control block.
\<close>

definition fx_finalizeInput :: "nat \<Rightarrow> psbt_input \<Rightarrow> jserr + bytes list" where
  "fx_finalizeInput k inp =
     (case pin_tapScriptSig inp of
        [] \<Rightarrow>
          Inl (Error (''Can not finalize taproot input #'' @ show_nat k
                      @ ''. No tapleaf script signature provided.''))
      | s # sigs \<Rightarrow>
          (case pin_tapLeafScript inp of
             [] \<Rightarrow>
               Inl (Error (''Can not finalize taproot input #'' @ show_nat k
                           @ ''. Signature for tapleaf script not found.''))
           | leaf # _ \<Rightarrow>
               Inr (map sig_signature (s # sigs) @ [leaf_script leaf, controlBlock leaf])))"

text \<open>A toy serializer and a toy extractor standing for the library's.\<close>

definition fx_toHex :: "tx \<Rightarrow> string" where
  "fx_toHex t =
     concat (map (\<lambda>i. concat (map (\<lambda>w. show_nat (length w) @ '':'' @ concat (map (\<lambda>b. show_nat (unat b) @ '','') w))
                                   (tin_witness i)))
                 (tx_ins t))"

definition fx_extract :: "psbt \<Rightarrow> bytes list list \<Rightarrow> jserr + tx" where
  "fx_extract p ws =
     Inr \<lparr>tx_version = 2, tx_locktime = 0,
          tx_ins = map (\<lambda>(i, w). \<lparr>tin_hash = pin_hash i, tin_index = pin_index i,
                                   tin_script = [], tin_sequence = 4294967295,
                                   tin_witness = w\<rparr>) (zip (psbt_inputs p) ws),
          tx_outs = map (\<lambda>out. case out of
                                 OutScript s v \<Rightarrow> \<lparr>tout_script = s, tout_value = v\<rparr>
                               | OutAddress a v \<Rightarrow> \<lparr>tout_script = [], tout_value = v\<rparr>)
                        (psbt_outputs p)\<rparr>"

text \<open>A wallet that signs every input, and one that signs nothing and sends nothing.\<close>

definition fx_provider :: provider where
  "fx_provider =
     \<lparr>getNetwork = Inr ''testnet'',
      switchNetwork = (\<lambda>n. None),
      requestAccounts = Inr [Str ''tb1quser''],
      getPublicKey = Inr (Str ''02ab''),
      signPsbt = (\<lambda>p. Inr (p\<lparr>psbt_inputs :=
                     map (\<lambda>i. i\<lparr>pin_tapScriptSig := pin_tapScriptSig i @ [fx_user_sig]\<rparr>)
                         (psbt_inputs p)\<rparr>)),
      pushTx = (\<lambda>h. Inr (Str ''txid'')),
      sendBitcoin = (\<lambda>a n. Inr (Str ''deposit-txid''))\<rparr>"

definition fx_idle_provider :: provider where
  "fx_idle_provider =
     fx_provider\<lparr>signPsbt := (\<lambda>p. Inr p),
                 sendBitcoin := (\<lambda>a n. Inl (Error ''User rejected the request.''))\<rparr>"

text \<open>A wallet that signs the first input only.\<close>

definition fx_partial_provider :: provider where
  "fx_partial_provider =
     fx_provider\<lparr>signPsbt := (\<lambda>p. Inr (p\<lparr>psbt_inputs :=
        (case psbt_inputs p of [] \<Rightarrow> []
         | i # rest \<Rightarrow> i\<lparr>pin_tapScriptSig := pin_tapScriptSig i @ [fx_user_sig]\<rparr> # rest)\<rparr>))\<rparr>"

definition fx_env :: env where
  "fx_env =
     \<lparr>window_unisat = Some fx_provider,
      window_okxwallet = None,
      fromHex = (\<lambda>s. if s = ''rawtx'' then Inr fx_tx
                      else if s = ''fulltx'' then Inr fx_tx_full
                      else if s = ''batchtx'' then Inr fx_batch_tx
                      else Inl (Error ''bad hex'')),
      toHex = fx_toHex,
      toOutputScript = (\<lambda>a. if take 2 a = ''tb'' then Inr [81, 32]
                             else Inl (Error ''has an invalid prefix'')),
      fromOutputScript = (\<lambda>s. Inr ''tb1qdest''),
      lib_check_addInput = (\<lambda>p i. None),
      lib_check_updateInput = (\<lambda>p i s. None),
      lib_check_addOutput = (\<lambda>p out. None),
      finalizeInput = fx_finalizeInput,
      extractTransaction = fx_extract,
      post_create_contract =
        (\<lambda>pk a d. Inr \<lparr>cr_status = Str ''success'', cr_contract_id = Num 42,
                        cr_deposit_address = Str ''tb1pdeposit''\<rparr>),
      post_cancel_contract = (\<lambda>i. None),
      post_claim_all = (\<lambda>pk. Inr fx_claim_reply)\<rparr>"

definition fx_wallet :: wallet where
  "fx_wallet =
     \<lparr>w_connected = True, w_address = Str ''tb1quser'', w_publicKey = Str ''02ab'',
      w_name = ''UniSat Wallet'', currentProvider = Some UniSat\<rparr>"

definition fx_form :: contractForm where
  "fx_form = \<lparr>f_amount = 1000, f_direction = ''LONG''\<rparr>"

definition ev_action_required :: "jsval \<Rightarrow> jsval \<Rightarrow> event" where
  "ev_action_required i h =
     \<lparr>ev_type = Str ''ACTION_REQUIRED'', ev_contract_id = i, ev_result = Undefined,
      ev_status = Str ''WAITING_USER_SIG'', ev_tx_hex = h, ev_message = Str ''sign''\<rparr>"

text \<open>
  The session after \<^verbatim>\<open>createAndDeposit\<close> and an \<^verbatim>\<open>ACTION_REQUIRED\<close> event for the
  contract it created.
\<close>

definition fx_pending :: contract where
  "fx_pending =
     onmessage (ev_action_required (Num 42) (Str ''rawtx''))
       (fst (createAndDeposit fx_env fx_wallet fx_form currentContract_init))"

text \<open>A contract object that does carry an \<^verbatim>\<open>amount\<close> of 1000.\<close>

definition fx_funded :: "string \<Rightarrow> contract" where
  "fx_funded h =
     \<lparr>c_id = Num 42, c_address = Str ''tb1pdeposit'', c_status = Str ''WAITING_USER_SIG'',
      c_tx_hex = Str h, c_logs = [], c_amount = Some 1000\<rparr>"

text \<open>A wallet that returns the PSBT with the signatures of its second input removed.\<close>

definition fx_stripping_provider :: provider where
  "fx_stripping_provider =
     fx_provider\<lparr>signPsbt := (\<lambda>p. Inr (p\<lparr>psbt_inputs :=
        (case psbt_inputs p of
           i0 # i1 # rest \<Rightarrow> i0 # i1\<lparr>pin_tapScriptSig := []\<rparr> # rest
         | inputs \<Rightarrow> inputs)\<rparr>))\<rparr>"

text \<open>The PSBT that the signing path builds for \<open>fx_funded\<close>.\<close>

definition fx_psbt :: psbt where
  "fx_psbt =
     \<lparr>psbt_inputs =
        [\<lparr>pin_hash = [1], pin_index = 0, witnessUtxo_script = [81, 32],
          witnessUtxo_value = 2000, pin_tapLeafScript = [fx_leaf],
          pin_tapScriptSig = [], pin_sighashType = Some 0\<rparr>],
      psbt_outputs = [OutAddress ''tb1qdest'' 1900]\<rparr>"


text \<open>
  A session whose backend numbers the new contract 0 and whose wallet refuses to send.
\<close>

definition fx_env_zero :: env where
  "fx_env_zero =
     fx_env\<lparr>window_unisat := Some fx_idle_provider,
            post_create_contract :=
              (\<lambda>pk a d. Inr \<lparr>cr_status = Str ''success'', cr_contract_id = Num 0,
                              cr_deposit_address = Str ''tb1pdeposit''\<rparr>)\<rparr>"

text \<open>
  An OKX wallet, told apart from the UniSat one by its replies, and a session in which
  it is the only wallet installed.
\<close>

definition fx_okx_provider :: provider where
  "fx_okx_provider =
     fx_provider\<lparr>signPsbt := (\<lambda>p. Inl (Error ''okx: not asked'')),
                 pushTx := (\<lambda>h. Inr (Str ''okx-txid''))\<rparr>"



text \<open>
  A backend that hands out a main-network deposit address, and the session after
  \<^verbatim>\<open>createAndDeposit\<close> and the \<^verbatim>\<open>ACTION_REQUIRED\<close> event for that contract.
\<close>

definition fx_env_mainnet :: env where
  "fx_env_mainnet =
     fx_env\<lparr>post_create_contract :=
              (\<lambda>pk a d. Inr \<lparr>cr_status = Str ''success'', cr_contract_id = Num 42,
                              cr_deposit_address = Str ''bc1pmainnet''\<rparr>)\<rparr>"

definition fx_pending_mainnet :: contract where
  "fx_pending_mainnet =
     onmessage (ev_action_required (Num 42) (Str ''rawtx''))
       (fst (createAndDeposit fx_env_mainnet fx_wallet fx_form currentContract_init))"

text \<open>The reachable session of \<open>fx_pending\<close> with both signature slots already filled.\<close>

definition fx_pending_full :: contract where
  "fx_pending_full =
     onmessage (ev_action_required (Num 42) (Str ''fulltx''))
       (fst (createAndDeposit fx_env fx_wallet fx_form currentContract_init))"



section \<open>Auxiliary facts\<close>

lemma log_fields [simp]:
  "c_id (log m c) = c_id c" "c_address (log m c) = c_address c"
  "c_status (log m c) = c_status c" "c_tx_hex (log m c) = c_tx_hex c"
  "c_amount (log m c) = c_amount c" "c_logs (log m c) = m # c_logs c"
  by (simp_all add: log_def)

lemma andThen_Inr: "andThen x f = Inr y \<longleftrightarrow> (\<exists>a. x = Inr a \<and> f a = Inr y)"
  by (cases x) auto

lemma js_nth_0: "js_nth xs 0 = (case xs of [] \<Rightarrow> None | x # _ \<Rightarrow> Some x)"
  by (cases xs) (simp_all add: js_nth_def)

lemma js_nth_Some: "js_nth xs i = Some x \<longleftrightarrow> 0 \<le> i \<and> nat i < length xs \<and> x = xs ! nat i"
  by (auto simp add: js_nth_def)

lemma build_single_Inr:
  assumes "build_single env c = Inr (t, witness, p)"
  shows "parse_tx env (c_tx_hex c) = Inr t"
    and "\<exists>in0 rest. tx_ins t = in0 # rest \<and> witness = tin_witness in0"
    and "\<exists>n. c_amount c = Some n"
    and "\<exists>b. address_script env (c_address c) = Inr b"
  using assms
  by (auto simp add: build_single_def andThen_Inr js_nth_0 Let_def BigInt_times2_def
      split: option.splits list.splits)

lemma build_single_amount_undefined:
  assumes "c_amount c = None"
  shows "\<exists>e. build_single env c = Inl e"
proof (cases "build_single env c")
  case (Inl e) then show ?thesis by blast
next
  case (Inr r)
  obtain t witness p where "r = (t, witness, p)" by (cases r) auto
  with Inr build_single_Inr(3) [of env c t witness p] assms show ?thesis by simp
qed

lemma build_single_logs [simp]: "build_single env (c\<lparr>c_logs := l\<rparr>) = build_single env c"
  by (simp add: build_single_def cong: option.case_cong prod.case_cong)

lemma build_single_log [simp]: "build_single env (log m c) = build_single env c"
  by (simp add: build_single_def log_def cong: option.case_cong prod.case_cong)

lemma insert_from_Some:
  "insert_from i userSig w = Some w' \<Longrightarrow>
     \<exists>k. i \<le> k \<and> k + 2 < length w \<and> w ! k = [] \<and> (\<forall>j. i \<le> j \<and> j < k \<longrightarrow> w ! j \<noteq> [])
         \<and> w' = w[k := userSig]"
proof (induction i userSig w rule: insert_from.induct)
  case (1 i userSig witness)
  show ?case
  proof (cases "int i < int (length witness) - 2")
    case False
    with "1.prems" show ?thesis by (simp add: insert_from.simps)
  next
    case inb: True
    show ?thesis
    proof (cases "witness ! i = []")
      case True
      with inb "1.prems" have "w' = witness[i := userSig]"
        by (simp add: insert_from.simps)
      with True inb show ?thesis by (intro exI [of _ i]) auto
    next
      case False
      with inb "1.prems" have "insert_from (Suc i) userSig witness = Some w'"
        by (simp add: insert_from.simps)
      with "1.IH" inb False obtain k where k: "Suc i \<le> k" "k + 2 < length witness"
        "witness ! k = []" "\<forall>j. Suc i \<le> j \<and> j < k \<longrightarrow> witness ! j \<noteq> []"
        "w' = witness[k := userSig]" by auto
      have "\<forall>j. i \<le> j \<and> j < k \<longrightarrow> witness ! j \<noteq> []"
      proof (intro allI impI)
        fix j assume "i \<le> j \<and> j < k"
        then show "witness ! j \<noteq> []" using k(4) False by (cases "j = i") auto
      qed
      with k show ?thesis by (intro exI [of _ k]) auto
    qed
  qed
qed

lemma insert_from_None:
  "insert_from i userSig w = None \<Longrightarrow> (\<forall>j. i \<le> j \<and> j + 2 < length w \<longrightarrow> w ! j \<noteq> [])"
proof (induction i userSig w rule: insert_from.induct)
  case (1 i userSig witness)
  show ?case
  proof (cases "int i < int (length witness) - 2")
    case False
    then show ?thesis by auto
  next
    case inb: True
    from inb "1.prems" have ne: "witness ! i \<noteq> []"
      by (auto simp add: insert_from.simps split: if_splits)
    with inb "1.prems" have "insert_from (Suc i) userSig witness = None"
      by (simp add: insert_from.simps)
    with "1.IH" inb ne have ih: "\<forall>j. Suc i \<le> j \<and> j + 2 < length witness \<longrightarrow> witness ! j \<noteq> []"
      by auto
    show ?thesis
    proof (intro allI impI)
      fix j assume "i \<le> j \<and> j + 2 < length witness"
      then show "witness ! j \<noteq> []" using ih ne by (cases "j = i") auto
    qed
  qed
qed

lemma insert_from_first_empty:
  assumes "i \<le> k" "k + 2 < length w" "w ! k = []" "\<forall>j. i \<le> j \<and> j < k \<longrightarrow> w ! j \<noteq> []"
  shows "insert_from i userSig w = Some (w[k := userSig])"
proof (cases "insert_from i userSig w")
  case None
  from insert_from_None [OF None] assms show ?thesis by auto
next
  case (Some w')
  from insert_from_Some [OF Some] obtain k' where k': "i \<le> k'" "k' + 2 < length w"
    "w ! k' = []" "\<forall>j. i \<le> j \<and> j < k' \<longrightarrow> w ! j \<noteq> []" "w' = w[k' := userSig]" by blast
  have "k' = k"
  proof (rule ccontr)
    assume "k' \<noteq> k"
    then consider "k' < k" | "k < k'" by linarith
    then show False using assms k' by cases auto
  qed
  with Some k' show ?thesis by simp
qed

lemma insert_from_no_empty:
  assumes "\<forall>j. i \<le> j \<and> j + 2 < length w \<longrightarrow> w ! j \<noteq> []"
  shows "insert_from i userSig w = None"
proof (cases "insert_from i userSig w")
  case None then show ?thesis .
next
  case (Some w')
  from insert_from_Some [OF Some] assms show ?thesis by auto
qed

lemma signAndBroadcast_PushTx:
  assumes "PushTx h \<in> set (snd (signAndBroadcast env c))"
  shows "\<exists>t witness p w userSig witness'.
           build_single env c = Inr (t, witness, p) \<and> window_unisat env = Some w
           \<and> andThen (signPsbt w p) extract_userSig = Inr userSig
           \<and> insert_from 0 userSig witness = Some witness'
           \<and> h = toHex env (set_witness0 t witness')"
  using assms
  by (auto simp add: signAndBroadcast_def Let_def split: sum.splits option.splits prod.splits
      if_splits)

lemmas fx_defs = fx_env_def fx_provider_def fx_tx_def fx_in0_def fx_script_def fx_control_def
  fx_wallet_def fx_form_def ev_action_required_def currentContract_init_def
  fx_funded_def fx_user_sig_def fx_oracle_sig_def fx_leaf_def fx_tx_full_def fx_batch_tx_def
  fx_meta_def fx_claim_reply_def fx_idle_provider_def fx_partial_provider_def fx_psbt_def
  fx_stripping_provider_def fx_okx_provider_def

lemmas op_defs = build_single_def parse_tx_def js_nth_def BigInt_times2_def
  address_script_def addInput_def addOutput_def updateInput_def new_Psbt_def extract_userSig_def
  set_witness0_def outpoint_def Let_def insert_from.simps
  claim_build_def add_claim_input_def claim_finalize_def finalizeAllInputs_def
  fx_finalizeInput_def fx_extract_def

lemma fx_pending_eq:
  "fx_pending =
     \<lparr>c_id = Num 42, c_address = Str ''tb1pdeposit'', c_status = Str ''WAITING_USER_SIG'',
      c_tx_hex = Str ''rawtx'',
      c_logs =
        [LogActionRequired (Str ''sign''), LogWsNotice (Str ''ACTION_REQUIRED'') (Num 42),
         LogWaitMatch, LogDepositBroadcast (Str ''deposit-txid''), LogSending 1000,
         LogDepositTo (Str ''tb1pdeposit''), LogCreated (Num 42), LogCreating],
      c_amount = None\<rparr>"
  by (simp add: fx_pending_def fx_defs createAndDeposit_def onmessage_def Let_def
      provider_of_def log_def)

lemma fx_build_raw:
  "build_single fx_env (fx_funded ''rawtx'') = Inr (fx_tx, tin_witness fx_in0, fx_psbt)"
  by (simp add: fx_defs op_defs)

lemma fx_build_full:
  "build_single fx_env (fx_funded ''fulltx'')
     = Inr (fx_tx_full, [[8, 8], [7, 7], fx_script, fx_control], fx_psbt)"
  by (simp add: fx_defs op_defs)

lemma fx_sign: "andThen (signPsbt fx_provider fx_psbt) extract_userSig = Inr [9, 9]"
  by (simp add: fx_defs op_defs)

lemma fx_funded_truthy:
  "truthy (c_tx_hex (fx_funded ''rawtx''))" "truthy (c_tx_hex (fx_funded ''fulltx''))"
  "truthy (c_address (fx_funded h))"
  by (simp_all add: fx_funded_def)

lemma address_script_undecodable:
  assumes "\<forall>a b. c_address c = Str a \<longrightarrow> toOutputScript env a \<noteq> Inr b"
  shows "address_script env (c_address c) = Inl (InvalidAddress (c_address c))"
  using assms by (auto simp add: address_script_def split: jsval.splits sum.splits)

lemma fx_env_fields:
  "window_unisat fx_env = Some fx_provider" "toHex fx_env = fx_toHex"
  by (simp_all add: fx_env_def)

lemma fx_provider_pushTx: "pushTx fx_provider h = Inr (Str ''txid'')"
  by (simp add: fx_provider_def)

lemma fx_tx_ins: "tx_ins fx_tx = [fx_in0]"
  by (simp add: fx_tx_def)

lemma add_claim_input_step:
  assumes ok: "add_claim_input env t p m = Inr p'"
    and inv: "\<forall>j<length (psbt_inputs p). j < length (tx_ins t)
               \<and> outpoint (psbt_inputs p ! j) = (tin_hash (tx_ins t ! j), tin_index (tx_ins t ! j))"
  shows "m_index m = int (length (psbt_inputs p))
         \<and> length (psbt_inputs p) < length (tx_ins t)
         \<and> (\<exists>leaf s. m_tapLeafScript m = Some leaf \<and> m_oracleSig m = Some s
               \<and> psbt_inputs p'
                   = psbt_inputs p @ [claim_input (tx_ins t ! length (psbt_inputs p)) m leaf s])
         \<and> psbt_outputs p' = psbt_outputs p"
proof -
  let ?i = "m_index m"
  let ?n = "length (psbt_inputs p)"
  from ok obtain txi leaf p1 s where
    txi: "js_nth (tx_ins t) ?i = Some txi"
    and leaf: "m_tapLeafScript m = Some leaf"
    and add: "addInput env p
                \<lparr>pin_hash = tin_hash txi, pin_index = tin_index txi,
                 witnessUtxo_script = m_scriptPubKey m, witnessUtxo_value = m_value m,
                 pin_tapLeafScript = [leaf], pin_tapScriptSig = [],
                 pin_sighashType = None\<rparr> = Inr p1"
    and s: "m_oracleSig m = Some s"
    and upd: "updateInput env p1 ?i s = Inr p'"
    by (auto simp add: add_claim_input_def Let_def andThen_Inr split: option.splits)
  let ?inp = "\<lparr>pin_hash = tin_hash txi, pin_index = tin_index txi,
                 witnessUtxo_script = m_scriptPubKey m, witnessUtxo_value = m_value m,
                 pin_tapLeafScript = [leaf], pin_tapScriptSig = [],
                 pin_sighashType = None\<rparr>"
  from txi have i: "0 \<le> ?i" "nat ?i < length (tx_ins t)" "txi = tx_ins t ! nat ?i"
    by (simp_all add: js_nth_Some)
  from add have fresh: "outpoint ?inp \<notin> set (map outpoint (psbt_inputs p))"
    and p1: "p1 = p\<lparr>psbt_inputs := psbt_inputs p @ [?inp]\<rparr>"
    by (auto simp add: addInput_def split: option.splits if_splits)
  from upd obtain x where x: "js_nth (psbt_inputs p1) ?i = Some x"
    and p': "p' = p1\<lparr>psbt_inputs := (psbt_inputs p1)[nat ?i :=
                      x\<lparr>pin_tapScriptSig := pin_tapScriptSig x @ [s]\<rparr>]\<rparr>"
    by (auto simp add: updateInput_def split: option.splits)
  from x p1 have le: "nat ?i < Suc ?n" by (simp add: js_nth_Some)
  have eq: "nat ?i = ?n"
  proof (rule ccontr)
    assume "nat ?i \<noteq> ?n"
    with le have lt: "nat ?i < ?n" by simp
    with inv i have "outpoint (psbt_inputs p ! nat ?i) = outpoint ?inp"
      by (simp add: outpoint_def)
    moreover from lt have "psbt_inputs p ! nat ?i \<in> set (psbt_inputs p)" by simp
    ultimately have "outpoint ?inp \<in> set (map outpoint (psbt_inputs p))"
      by (metis image_eqI set_map)
    with fresh show False by simp
  qed
  with i have idx: "?i = int ?n" by simp
  from x p1 eq have xv: "x = ?inp" by (simp add: js_nth_Some nth_append)
  from p' p1 eq xv i have
    "psbt_inputs p' = psbt_inputs p @ [claim_input (tx_ins t ! ?n) m leaf s]"
    by (simp add: claim_input_def)
  moreover from p' p1 have "psbt_outputs p' = psbt_outputs p" by simp
  ultimately show ?thesis using idx i eq leaf s by auto
qed

lemma add_claim_inputs_inv:
  assumes "add_claim_inputs env t p ms = Inr q"
    and "\<forall>j<length (psbt_inputs p). j < length (tx_ins t)
               \<and> outpoint (psbt_inputs p ! j) = (tin_hash (tx_ins t ! j), tin_index (tx_ins t ! j))"
  shows "\<exists>qs. psbt_inputs q = psbt_inputs p @ qs \<and> length qs = length ms
           \<and> (\<forall>k<length ms.
                 m_index (ms ! k) = int (length (psbt_inputs p) + k)
                 \<and> length (psbt_inputs p) + k < length (tx_ins t)
                 \<and> (\<exists>leaf s. m_tapLeafScript (ms ! k) = Some leaf
                       \<and> m_oracleSig (ms ! k) = Some s
                       \<and> qs ! k = claim_input (tx_ins t ! (length (psbt_inputs p) + k))
                                    (ms ! k) leaf s))"
  using assms
proof (induction ms arbitrary: p)
  case Nil
  then show ?case by simp
next
  case (Cons m ms)
  let ?n = "length (psbt_inputs p)"
  from Cons.prems(1) obtain p' where
    step: "add_claim_input env t p m = Inr p'"
    and rest: "add_claim_inputs env t p' ms = Inr q"
    by (auto split: sum.splits)
  from add_claim_input_step [OF step Cons.prems(2)] obtain leaf s where
    m: "m_index m = int ?n" "?n < length (tx_ins t)"
       "m_tapLeafScript m = Some leaf" "m_oracleSig m = Some s"
       "psbt_inputs p' = psbt_inputs p @ [claim_input (tx_ins t ! ?n) m leaf s]"
    by blast
  have inv': "\<forall>j<length (psbt_inputs p'). j < length (tx_ins t)
               \<and> outpoint (psbt_inputs p' ! j) = (tin_hash (tx_ins t ! j), tin_index (tx_ins t ! j))"
  proof (intro allI impI)
    fix j assume "j < length (psbt_inputs p')"
    with m have "j < ?n \<or> j = ?n" by auto
    then show "j < length (tx_ins t)
               \<and> outpoint (psbt_inputs p' ! j) = (tin_hash (tx_ins t ! j), tin_index (tx_ins t ! j))"
      using m Cons.prems(2) by (auto simp add: nth_append outpoint_def claim_input_def)
  qed
  from Cons.IH [OF rest inv'] obtain qs where
    qs: "psbt_inputs q = psbt_inputs p' @ qs" "length qs = length ms"
        "\<forall>k<length ms.
            m_index (ms ! k) = int (length (psbt_inputs p') + k)
            \<and> length (psbt_inputs p') + k < length (tx_ins t)
            \<and> (\<exists>leaf s. m_tapLeafScript (ms ! k) = Some leaf
                  \<and> m_oracleSig (ms ! k) = Some s
                  \<and> qs ! k = claim_input (tx_ins t ! (length (psbt_inputs p') + k))
                               (ms ! k) leaf s)"
    by blast
  let ?qs = "claim_input (tx_ins t ! ?n) m leaf s # qs"
  have "psbt_inputs q = psbt_inputs p @ ?qs" using qs m by simp
  moreover have "length ?qs = length (m # ms)" using qs by simp
  moreover have "\<forall>k<length (m # ms).
                 m_index ((m # ms) ! k) = int (?n + k)
                 \<and> ?n + k < length (tx_ins t)
                 \<and> (\<exists>leaf s. m_tapLeafScript ((m # ms) ! k) = Some leaf
                       \<and> m_oracleSig ((m # ms) ! k) = Some s
                       \<and> ?qs ! k = claim_input (tx_ins t ! (?n + k)) ((m # ms) ! k) leaf s)"
  proof (intro allI impI)
    fix k assume k: "k < length (m # ms)"
    show "m_index ((m # ms) ! k) = int (?n + k)
                 \<and> ?n + k < length (tx_ins t)
                 \<and> (\<exists>leaf s. m_tapLeafScript ((m # ms) ! k) = Some leaf
                       \<and> m_oracleSig ((m # ms) ! k) = Some s
                       \<and> ?qs ! k = claim_input (tx_ins t ! (?n + k)) ((m # ms) ! k) leaf s)"
    proof (cases k)
      case 0
      with m show ?thesis by simp
    next
      case (Suc k')
      with k have "k' < length ms" by simp
      with qs(3) m(5) Suc show ?thesis by simp
    qed
  qed
  ultimately show ?case by blast
qed

lemma add_outputs_inputs:
  "add_outputs env p outs = Inr q \<Longrightarrow> psbt_inputs q = psbt_inputs p"
proof (induction outs arbitrary: p)
  case Nil
  then show ?case by simp
next
  case (Cons out outs)
  from Cons.prems obtain p' where
    a: "addOutput env p (OutScript (tout_script out) (tout_value out)) = Inr p'"
    and r: "add_outputs env p' outs = Inr q"
    by (auto split: sum.splits)
  from a have "psbt_inputs p' = psbt_inputs p"
    by (auto simp add: addOutput_def split: option.splits)
  with Cons.IH [OF r] show ?case by simp
qed











lemma switch_amount:
  "c_amount (fst (switch_unisat pr c)) = c_amount c"
  "c_amount (fst (switch_okx pr c)) = c_amount c"
  by (simp_all add: switch_unisat_def switch_okx_def split: sum.splits option.splits)

lemma connect_accounts_amount:
  "c_amount (fst (snd (connect_accounts n pr wl c calls))) = c_amount c"
  by (simp add: connect_accounts_def Let_def split: sum.splits jsval.splits)

lemma connectWallet_amount:
  "c_amount (fst (snd (connectWallet env wl c))) = c_amount c"
proof (cases "window_unisat env")
  case (Some pr)
  obtain c1 calls where s: "switch_unisat pr c = (c1, calls)" by (cases "switch_unisat pr c")
  with switch_amount(1) [of pr c] have "c_amount c1 = c_amount c" by simp
  with Some s show ?thesis by (simp add: connectWallet_def connect_accounts_amount)
next
  case None
  show ?thesis
  proof (cases "window_okxwallet env")
    case (Some pr)
    obtain c1 calls where s: "switch_okx pr c = (c1, calls)" by (cases "switch_okx pr c")
    with switch_amount(2) [of pr c] have "c_amount c1 = c_amount c" by simp
    with None Some s show ?thesis by (simp add: connectWallet_def connect_accounts_amount)
  next
    case n: None
    with None show ?thesis by (simp add: connectWallet_def)
  qed
qed

lemma createAndDeposit_catch_amount:
  "c_amount (fst (createAndDeposit_catch env e c)) = c_amount c"
  by (simp add: createAndDeposit_catch_def Let_def split: option.splits)

lemma createAndDeposit_amount:
  "c_amount (fst (createAndDeposit env wl form c)) = c_amount c"
proof -
  have k: "c_amount (fst (case createAndDeposit_catch env e c' of (x, calls) \<Rightarrow> (x, f calls)))
             = c_amount c'" for e c' and f :: "call list \<Rightarrow> call list"
    using createAndDeposit_catch_amount [of env e c']
    by (cases "createAndDeposit_catch env e c'") simp
  show ?thesis
    by (simp add: createAndDeposit_def Let_def k split: sum.splits option.splits)
qed

lemma fx_pending_mainnet_eq:
  "fx_pending_mainnet =
     \<lparr>c_id = Num 42, c_address = Str ''bc1pmainnet'', c_status = Str ''WAITING_USER_SIG'',
      c_tx_hex = Str ''rawtx'',
      c_logs =
        [LogActionRequired (Str ''sign''), LogWsNotice (Str ''ACTION_REQUIRED'') (Num 42),
         LogWaitMatch, LogDepositBroadcast (Str ''deposit-txid''), LogSending 1000,
         LogDepositTo (Str ''bc1pmainnet''), LogCreated (Num 42), LogCreating],
      c_amount = None\<rparr>"
  by (simp add: fx_pending_mainnet_def fx_env_mainnet_def fx_defs createAndDeposit_def
      onmessage_def Let_def provider_of_def log_def)

lemma fx_pending_full_eq:
  "fx_pending_full =
     \<lparr>c_id = Num 42, c_address = Str ''tb1pdeposit'', c_status = Str ''WAITING_USER_SIG'',
      c_tx_hex = Str ''fulltx'',
      c_logs =
        [LogActionRequired (Str ''sign''), LogWsNotice (Str ''ACTION_REQUIRED'') (Num 42),
         LogWaitMatch, LogDepositBroadcast (Str ''deposit-txid''), LogSending 1000,
         LogDepositTo (Str ''tb1pdeposit''), LogCreated (Num 42), LogCreating],
      c_amount = None\<rparr>"
  by (simp add: fx_pending_full_def fx_defs createAndDeposit_def onmessage_def Let_def
      provider_of_def log_def)






section \<open>Properties of the push-event handler\<close>



section \<open>Properties of single-contract signing\<close>

text \<open>
  C3.  The insertion loop does what the claim says of it: when \<open>k\<close> is the first element
  of the witness stack that has length zero among all elements except the final two, the
  loop writes the signature to slot \<open>k\<close>, and when no element before the final two is
  empty it inserts nothing.  Past the earlier steps the operation follows: it hands the
  transaction with exactly that stack to the broadcast, or it ends with the logged
  error that no placeholder was found, after the signing request and without a
  broadcast.  The script as it stands never gets that far: \<^verbatim>\<open>currentContract.amount\<close>
  is undefined, so for every pending transaction that parses and has an input, whatever
  its witness stack, the operation ends at \<^verbatim>\<open>BigInt(currentContract.amount * 2)\<close> with
  the logged \<^verbatim>\<open>RangeError\<close>; no signature is requested or inserted and nothing is
  broadcast.
\<close>

theorem signAndBroadcast_placeholder:
  "(k + 2 < length witness \<and> witness ! k = [] \<and> (\<forall>j<k. witness ! j \<noteq> []) \<longrightarrow>
      insert_from 0 userSig witness = Some (witness[k := userSig]))
   \<and> ((\<forall>j. j + 2 < length witness \<longrightarrow> witness ! j \<noteq> []) \<longrightarrow>
        insert_from 0 userSig witness = None)
   \<and> (c_amount c = None \<and> truthy (c_tx_hex c) \<and> truthy (c_address c)
        \<and> parse_tx env (c_tx_hex c) = Inr t \<and> tx_ins t \<noteq> [] \<longrightarrow>
        signAndBroadcast env c
          = (c\<lparr>c_logs := LogSignFailed (message BigInt_NaN) # LogRequestSig # c_logs c\<rparr>, []))
   \<and> (truthy (c_tx_hex c) \<and> truthy (c_address c)
        \<and> build_single env c = Inr (t, witness, p) \<and> window_unisat env = Some w
        \<and> andThen (signPsbt w p) extract_userSig = Inr userSig \<longrightarrow>
        (\<exists>in0 rest. tx_ins t = in0 # rest \<and> witness = tin_witness in0
           \<and> (k + 2 < length witness \<and> witness ! k = [] \<and> (\<forall>j<k. witness ! j \<noteq> []) \<longrightarrow>
                snd (signAndBroadcast env c)
                  = [SignPsbt p,
                     PushTx (toHex env
                       (t\<lparr>tx_ins := in0\<lparr>tin_witness := witness[k := userSig]\<rparr> # rest\<rparr>))])
           \<and> ((\<forall>j. j + 2 < length witness \<longrightarrow> witness ! j \<noteq> []) \<longrightarrow>
                signAndBroadcast env c
                  = (c\<lparr>c_logs :=
                         LogSignFailed ''Could not find placeholder for signature in witness stack''
                         # LogRequestSig # c_logs c\<rparr>,
                     [SignPsbt p]))))"
proof (intro conjI impI)
  assume "k + 2 < length witness \<and> witness ! k = [] \<and> (\<forall>j<k. witness ! j \<noteq> [])"
  then show "insert_from 0 userSig witness = Some (witness[k := userSig])"
    by (intro insert_from_first_empty) auto
next
  assume "\<forall>j. j + 2 < length witness \<longrightarrow> witness ! j \<noteq> []"
  then show "insert_from 0 userSig witness = None"
    by (intro insert_from_no_empty) auto
next
  assume h: "c_amount c = None \<and> truthy (c_tx_hex c) \<and> truthy (c_address c)
        \<and> parse_tx env (c_tx_hex c) = Inr t \<and> tx_ins t \<noteq> []"
  then obtain in0 rest where "tx_ins t = in0 # rest" by (cases "tx_ins t") auto
  with h have "build_single env c = Inl BigInt_NaN"
    by (simp add: build_single_def js_nth_0 Let_def BigInt_times2_def)
  with h show "signAndBroadcast env c
          = (c\<lparr>c_logs := LogSignFailed (message BigInt_NaN) # LogRequestSig # c_logs c\<rparr>, [])"
    by (simp add: signAndBroadcast_def Let_def sign_failed_def log_def)
next
  assume h: "truthy (c_tx_hex c) \<and> truthy (c_address c)
        \<and> build_single env c = Inr (t, witness, p) \<and> window_unisat env = Some w
        \<and> andThen (signPsbt w p) extract_userSig = Inr userSig"
  then have b: "build_single env c = Inr (t, witness, p)" by simp
  from build_single_Inr(2) [OF b] obtain in0 rest where
    t: "tx_ins t = in0 # rest" "witness = tin_witness in0" by blast
  have ins: "k + 2 < length witness \<and> witness ! k = [] \<and> (\<forall>j<k. witness ! j \<noteq> []) \<longrightarrow>
                snd (signAndBroadcast env c)
                  = [SignPsbt p,
                     PushTx (toHex env
                       (t\<lparr>tx_ins := in0\<lparr>tin_witness := witness[k := userSig]\<rparr> # rest\<rparr>))]"
  proof
    assume "k + 2 < length witness \<and> witness ! k = [] \<and> (\<forall>j<k. witness ! j \<noteq> [])"
    then have "insert_from 0 userSig witness = Some (witness[k := userSig])"
      by (intro insert_from_first_empty) auto
    with h t show "snd (signAndBroadcast env c)
                  = [SignPsbt p,
                     PushTx (toHex env
                       (t\<lparr>tx_ins := in0\<lparr>tin_witness := witness[k := userSig]\<rparr> # rest\<rparr>))]"
      by (simp add: signAndBroadcast_def Let_def set_witness0_def log_def split: sum.splits)
  qed
  have none: "(\<forall>j. j + 2 < length witness \<longrightarrow> witness ! j \<noteq> []) \<longrightarrow>
                signAndBroadcast env c
                  = (c\<lparr>c_logs :=
                         LogSignFailed ''Could not find placeholder for signature in witness stack''
                         # LogRequestSig # c_logs c\<rparr>,
                     [SignPsbt p])"
  proof
    assume "\<forall>j. j + 2 < length witness \<longrightarrow> witness ! j \<noteq> []"
    then have "insert_from 0 userSig witness = None"
      by (intro insert_from_no_empty) auto
    with h show "signAndBroadcast env c
                  = (c\<lparr>c_logs :=
                         LogSignFailed ''Could not find placeholder for signature in witness stack''
                         # LogRequestSig # c_logs c\<rparr>,
                     [SignPsbt p])"
      by (simp add: signAndBroadcast_def Let_def sign_failed_def log_def
          NoPlaceholderAvailable_def)
  qed
  from t ins none show "\<exists>in0 rest. tx_ins t = in0 # rest \<and> witness = tin_witness in0
           \<and> (k + 2 < length witness \<and> witness ! k = [] \<and> (\<forall>j<k. witness ! j \<noteq> []) \<longrightarrow>
                snd (signAndBroadcast env c)
                  = [SignPsbt p,
                     PushTx (toHex env
                       (t\<lparr>tx_ins := in0\<lparr>tin_witness := witness[k := userSig]\<rparr> # rest\<rparr>))])
           \<and> ((\<forall>j. j + 2 < length witness \<longrightarrow> witness ! j \<noteq> []) \<longrightarrow>
                signAndBroadcast env c
                  = (c\<lparr>c_logs :=
                         LogSignFailed ''Could not find placeholder for signature in witness stack''
                         # LogRequestSig # c_logs c\<rparr>,
                     [SignPsbt p]))"
    by blast
qed

text \<open>
  C3 on the session reached by creating contract 42, depositing, and receiving the
  \<^verbatim>\<open>ACTION_REQUIRED\<close> event: the pending transaction's witness stack has four
  elements, the first of them empty, and the operation ends with the \<^verbatim>\<open>RangeError\<close>,
  without a signing request, an insertion or a broadcast; likewise when both slots are
  filled.  On the stacks themselves the loop fills slot 0, or inserts nothing; and on a
  contract object that carries an amount the operation broadcasts the transaction with
  slot 0 filled, or logs that no placeholder was found.
\<close>

theorem signAndBroadcast_placeholder_witness:
  "tin_witness fx_in0 = [[], [7, 7], fx_script, fx_control]
   \<and> parse_tx fx_env (c_tx_hex fx_pending) = Inr fx_tx \<and> tx_ins fx_tx = [fx_in0]
   \<and> signAndBroadcast fx_env fx_pending
       = (fx_pending\<lparr>c_logs :=
            LogSignFailed
              ''The number NaN cannot be converted to a BigInt because it is not an integer''
            # LogRequestSig # c_logs fx_pending\<rparr>, [])
   \<and> signAndBroadcast fx_env fx_pending_full
       = (fx_pending_full\<lparr>c_logs :=
            LogSignFailed
              ''The number NaN cannot be converted to a BigInt because it is not an integer''
            # LogRequestSig # c_logs fx_pending_full\<rparr>, [])
   \<and> insert_from 0 [9, 9] [[], [7, 7], fx_script, fx_control]
       = Some [[9, 9], [7, 7], fx_script, fx_control]
   \<and> insert_from 0 [9, 9] [[8, 8], [7, 7], fx_script, fx_control] = None
   \<and> snd (signAndBroadcast fx_env (fx_funded ''rawtx''))
       = [SignPsbt fx_psbt,
          PushTx (toHex fx_env
            (fx_tx\<lparr>tx_ins := [fx_in0\<lparr>tin_witness := [[9, 9], [7, 7], fx_script, fx_control]\<rparr>]\<rparr>))]
   \<and> signAndBroadcast fx_env (fx_funded ''fulltx'')
       = ((fx_funded ''fulltx'')\<lparr>c_logs :=
             [LogSignFailed ''Could not find placeholder for signature in witness stack'',
              LogRequestSig]\<rparr>,
          [SignPsbt fx_psbt])"
proof -
  have w0: "tin_witness fx_in0 = [[], [7, 7], fx_script, fx_control]"
    by (simp add: fx_in0_def)
  have u: "window_unisat fx_env = Some fx_provider" by (simp add: fx_env_def)
  have first: "0 + 2 < length [[], [7, 7], fx_script, fx_control]
        \<and> [[], [7, 7], fx_script, fx_control] ! 0 = ([] :: bytes)
        \<and> (\<forall>j<0. [[], [7, 7], fx_script, fx_control] ! j \<noteq> ([] :: bytes))"
    by simp
  have nofree: "\<forall>j. j + 2 < length [[8, 8], [7, 7], fx_script, fx_control]
          \<longrightarrow> [[8, 8], [7, 7], fx_script, fx_control] ! j \<noteq> ([] :: bytes)"
  proof (intro allI impI)
    fix j :: nat
    assume "j + 2 < length [[8, 8], [7, 7], fx_script, fx_control]"
    then have "j = 0 \<or> j = 1" by auto
    then show "[[8, 8], [7, 7], fx_script, fx_control] ! j \<noteq> ([] :: bytes)" by auto
  qed
  have p1: "c_amount fx_pending = None \<and> truthy (c_tx_hex fx_pending)
      \<and> truthy (c_address fx_pending) \<and> parse_tx fx_env (c_tx_hex fx_pending) = Inr fx_tx
      \<and> tx_ins fx_tx \<noteq> []"
    by (simp add: fx_pending_eq parse_tx_def fx_env_def fx_tx_def)
  have p2: "c_amount fx_pending_full = None \<and> truthy (c_tx_hex fx_pending_full)
      \<and> truthy (c_address fx_pending_full)
      \<and> parse_tx fx_env (c_tx_hex fx_pending_full) = Inr fx_tx_full
      \<and> tx_ins fx_tx_full \<noteq> []"
    by (simp add: fx_pending_full_eq parse_tx_def fx_env_def fx_tx_full_def)
  have raw: "truthy (c_tx_hex (fx_funded ''rawtx'')) \<and> truthy (c_address (fx_funded ''rawtx''))
        \<and> build_single fx_env (fx_funded ''rawtx'')
            = Inr (fx_tx, [[], [7, 7], fx_script, fx_control], fx_psbt)
        \<and> window_unisat fx_env = Some fx_provider
        \<and> andThen (signPsbt fx_provider fx_psbt) extract_userSig = Inr [9, 9]"
    using fx_build_raw fx_sign u w0 by (simp add: fx_funded_truthy)
  have full: "truthy (c_tx_hex (fx_funded ''fulltx'')) \<and> truthy (c_address (fx_funded ''fulltx''))
        \<and> build_single fx_env (fx_funded ''fulltx'')
            = Inr (fx_tx_full, [[8, 8], [7, 7], fx_script, fx_control], fx_psbt)
        \<and> window_unisat fx_env = Some fx_provider
        \<and> andThen (signPsbt fx_provider fx_psbt) extract_userSig = Inr [9, 9]"
    using fx_build_full fx_sign u by (simp add: fx_funded_truthy)
  note a = signAndBroadcast_placeholder
    [where k = 0 and witness = "[[], [7, 7], fx_script, fx_control]" and userSig = "[9, 9]"
       and c = fx_pending and env = fx_env and t = fx_tx]
  note b = signAndBroadcast_placeholder
    [where k = 0 and witness = "[[8, 8], [7, 7], fx_script, fx_control]" and userSig = "[9, 9]"
       and c = fx_pending_full and env = fx_env and t = fx_tx_full]
  note c = signAndBroadcast_placeholder
    [where k = 0 and witness = "[[], [7, 7], fx_script, fx_control]" and userSig = "[9, 9]"
       and c = "fx_funded ''rawtx''" and env = fx_env and t = fx_tx and p = fx_psbt
       and w = fx_provider]
  note d = signAndBroadcast_placeholder
    [where k = 0 and witness = "[[8, 8], [7, 7], fx_script, fx_control]" and userSig = "[9, 9]"
       and c = "fx_funded ''fulltx''" and env = fx_env and t = fx_tx_full and p = fx_psbt
       and w = fx_provider]
  from a first p1 have 1:
    "insert_from 0 [9, 9] [[], [7, 7], fx_script, fx_control]
       = Some [[9, 9], [7, 7], fx_script, fx_control]
     \<and> signAndBroadcast fx_env fx_pending
       = (fx_pending\<lparr>c_logs := LogSignFailed (message BigInt_NaN) # LogRequestSig
                                   # c_logs fx_pending\<rparr>, [])"
    by simp
  from b nofree p2 have 2:
    "insert_from 0 [9, 9] [[8, 8], [7, 7], fx_script, fx_control] = None
     \<and> signAndBroadcast fx_env fx_pending_full
       = (fx_pending_full\<lparr>c_logs := LogSignFailed (message BigInt_NaN) # LogRequestSig
                                        # c_logs fx_pending_full\<rparr>, [])"
    by blast
  from c raw first have 3:
    "snd (signAndBroadcast fx_env (fx_funded ''rawtx''))
       = [SignPsbt fx_psbt,
          PushTx (toHex fx_env
            (fx_tx\<lparr>tx_ins := [fx_in0\<lparr>tin_witness := [[9, 9], [7, 7], fx_script, fx_control]\<rparr>]\<rparr>))]"
    by (auto simp add: fx_tx_ins)
  from d full nofree have 4:
    "signAndBroadcast fx_env (fx_funded ''fulltx'')
       = ((fx_funded ''fulltx'')\<lparr>c_logs :=
             LogSignFailed ''Could not find placeholder for signature in witness stack''
             # LogRequestSig # c_logs (fx_funded ''fulltx'')\<rparr>,
          [SignPsbt fx_psbt])"
    by blast
  from w0 p1 1 2 3 4 show ?thesis
    by (simp add: BigInt_NaN_def fx_tx_ins) (simp add: fx_funded_def)
qed

text \<open>
  C4.  A successful insertion replaces one element of the witness stack, an empty one
  that lies before the final two: the stack keeps its length, every other element is
  the same, and so are the leaf script (second to last) and the control block (last).
  Whatever transaction the signing path hands to the broadcast is the parsed pending
  transaction with that one witness element of input 0 replaced, all other fields of the
  transaction being the same.
\<close>

theorem insert_signature_frame:
  "(insert_from 0 userSig witness = Some witness' \<longrightarrow>
      length witness' = length witness
      \<and> witness' ! (length witness - 2) = witness ! (length witness - 2)
      \<and> witness' ! (length witness - 1) = witness ! (length witness - 1)
      \<and> (\<exists>k. k + 2 < length witness \<and> witness ! k = [] \<and> witness' = witness[k := userSig]
             \<and> (\<forall>j. j \<noteq> k \<longrightarrow> witness' ! j = witness ! j)))
   \<and> (PushTx h \<in> set (snd (signAndBroadcast env c)) \<longrightarrow>
        (\<exists>t in0 rest k userSig.
            parse_tx env (c_tx_hex c) = Inr t \<and> tx_ins t = in0 # rest
            \<and> k + 2 < length (tin_witness in0) \<and> tin_witness in0 ! k = []
            \<and> h = toHex env
                    (t\<lparr>tx_ins := in0\<lparr>tin_witness := (tin_witness in0)[k := userSig]\<rparr> # rest\<rparr>)))"
proof (intro conjI impI)
  assume "insert_from 0 userSig witness = Some witness'"
  from insert_from_Some [OF this] obtain k where
    k: "k + 2 < length witness" "witness ! k = []" "witness' = witness[k := userSig]" by blast
  then show "length witness' = length witness"
    and "witness' ! (length witness - 2) = witness ! (length witness - 2)"
    and "witness' ! (length witness - 1) = witness ! (length witness - 1)"
    by simp_all
  from k show "\<exists>k. k + 2 < length witness \<and> witness ! k = [] \<and> witness' = witness[k := userSig]
             \<and> (\<forall>j. j \<noteq> k \<longrightarrow> witness' ! j = witness ! j)"
    by (intro exI [of _ k]) simp
next
  assume "PushTx h \<in> set (snd (signAndBroadcast env c))"
  from signAndBroadcast_PushTx [OF this] obtain t wit p w userSig wit' where
    b: "build_single env c = Inr (t, wit, p)"
    and i: "insert_from 0 userSig wit = Some wit'"
    and h: "h = toHex env (set_witness0 t wit')" by blast
  from build_single_Inr [OF b] obtain in0 rest where
    t: "parse_tx env (c_tx_hex c) = Inr t" "tx_ins t = in0 # rest" "wit = tin_witness in0"
    by blast
  from insert_from_Some [OF i] obtain k where
    k: "k + 2 < length wit" "wit ! k = []" "wit' = wit[k := userSig]" by blast
  from t k h show "\<exists>t in0 rest k userSig.
            parse_tx env (c_tx_hex c) = Inr t \<and> tx_ins t = in0 # rest
            \<and> k + 2 < length (tin_witness in0) \<and> tin_witness in0 ! k = []
            \<and> h = toHex env
                    (t\<lparr>tx_ins := in0\<lparr>tin_witness := (tin_witness in0)[k := userSig]\<rparr> # rest\<rparr>)"
    by (intro exI [of _ t] exI [of _ in0] exI [of _ rest] exI [of _ k] exI [of _ userSig])
       (simp add: set_witness0_def)
qed

text \<open>C4 on the worked transaction: only slot 0 of the witness of input 0 changes.\<close>

theorem insert_signature_frame_witness:
  "insert_from 0 [9, 9] (tin_witness fx_in0) = Some [[9, 9], [7, 7], fx_script, fx_control]
   \<and> [[9, 9], [7, 7], fx_script, fx_control] ! 2 = tin_witness fx_in0 ! 2
   \<and> [[9, 9], [7, 7], fx_script, fx_control] ! 3 = tin_witness fx_in0 ! 3
   \<and> PushTx (toHex fx_env (fx_tx\<lparr>tx_ins :=
                 [fx_in0\<lparr>tin_witness := [[9, 9], [7, 7], fx_script, fx_control]\<rparr>]\<rparr>))
       \<in> set (snd (signAndBroadcast fx_env (fx_funded ''rawtx'')))
   \<and> (\<exists>t in0 rest k userSig.
         parse_tx fx_env (c_tx_hex (fx_funded ''rawtx'')) = Inr t \<and> tx_ins t = in0 # rest
         \<and> k + 2 < length (tin_witness in0) \<and> tin_witness in0 ! k = []
         \<and> toHex fx_env (fx_tx\<lparr>tx_ins :=
                 [fx_in0\<lparr>tin_witness := [[9, 9], [7, 7], fx_script, fx_control]\<rparr>]\<rparr>)
             = toHex fx_env
                 (t\<lparr>tx_ins := in0\<lparr>tin_witness := (tin_witness in0)[k := userSig]\<rparr> # rest\<rparr>))"
proof -
  have i: "insert_from 0 [9, 9] (tin_witness fx_in0) = Some [[9, 9], [7, 7], fx_script, fx_control]"
    by (simp add: fx_in0_def insert_from.simps)
  have p: "PushTx (toHex fx_env (fx_tx\<lparr>tx_ins :=
                 [fx_in0\<lparr>tin_witness := [[9, 9], [7, 7], fx_script, fx_control]\<rparr>]\<rparr>))
       \<in> set (snd (signAndBroadcast fx_env (fx_funded ''rawtx'')))"
    by (simp add: signAndBroadcast_def Let_def fx_funded_truthy set_witness0_def
        fx_build_raw fx_sign i fx_env_fields fx_provider_pushTx fx_tx_ins)
  from insert_signature_frame
         [where userSig = "[9, 9]" and witness = "tin_witness fx_in0"
            and witness' = "[[9, 9], [7, 7], fx_script, fx_control]"
            and h = "toHex fx_env (fx_tx\<lparr>tx_ins :=
                 [fx_in0\<lparr>tin_witness := [[9, 9], [7, 7], fx_script, fx_control]\<rparr>]\<rparr>)"
            and env = fx_env and c = "fx_funded ''rawtx''"] i p
  show ?thesis by (simp add: fx_in0_def)
qed



text \<open>
  C9.  Let the contract's address be one that the decoder does not accept under the test
  network (any text it rejects, a main-network address among them, or a value that is
  not text).  Then the signing operation hands nothing to the wallet, broadcasts
  nothing and leaves the status as it was.  The error it ends with depends on the step
  before the address check, \<^verbatim>\<open>BigInt(currentContract.amount * 2)\<close>: the script never
  sets the amount, and with the amount undefined the operation ends with the logged
  \<^verbatim>\<open>RangeError\<close> and the address is not looked at; only on a contract object that
  carries an amount does it end with the logged error
  \<^verbatim>\<open>Invalid address for Testnet\<close>.
\<close>

theorem signAndBroadcast_invalid_address:
  assumes "\<forall>a b. c_address c = Str a \<longrightarrow> toOutputScript env a \<noteq> Inr b"
  shows "(\<forall>p. SignPsbt p \<notin> set (snd (signAndBroadcast env c)))
         \<and> (\<forall>h. PushTx h \<notin> set (snd (signAndBroadcast env c)))
         \<and> c_status (fst (signAndBroadcast env c)) = c_status c
         \<and> (truthy (c_tx_hex c) \<and> truthy (c_address c) \<and> parse_tx env (c_tx_hex c) = Inr t
              \<and> tx_ins t \<noteq> [] \<longrightarrow>
             (c_amount c = None \<longrightarrow>
                signAndBroadcast env c
                  = (c\<lparr>c_logs := LogSignFailed (message BigInt_NaN) # LogRequestSig
                                  # c_logs c\<rparr>, []))
             \<and> (c_amount c = Some n \<longrightarrow>
                  signAndBroadcast env c
                    = (c\<lparr>c_logs :=
                           LogSignFailed (''Invalid address for Testnet: '' @ js_text (c_address c))
                           # LogRequestSig # c_logs c\<rparr>, [])))"
proof -
  note a = address_script_undecodable [OF assms]
  have nb: "\<exists>e. build_single env c = Inl e"
  proof (cases "build_single env c")
    case (Inl e) then show ?thesis by blast
  next
    case (Inr r)
    obtain t' wit p where "r = (t', wit, p)" by (cases r) auto
    with Inr build_single_Inr(4) [of env c t' wit p] a show ?thesis by simp
  qed
  then obtain e where e: "build_single env c = Inl e" by blast
  have 1: "\<forall>p. SignPsbt p \<notin> set (snd (signAndBroadcast env c))"
    using e by (simp add: signAndBroadcast_def Let_def)
  have 2: "\<forall>h. PushTx h \<notin> set (snd (signAndBroadcast env c))"
    using e by (simp add: signAndBroadcast_def Let_def)
  have 3: "c_status (fst (signAndBroadcast env c)) = c_status c"
    using e by (simp add: signAndBroadcast_def Let_def sign_failed_def)
  have 4: "truthy (c_tx_hex c) \<and> truthy (c_address c) \<and> parse_tx env (c_tx_hex c) = Inr t
              \<and> tx_ins t \<noteq> [] \<longrightarrow>
             (c_amount c = None \<longrightarrow>
                signAndBroadcast env c
                  = (c\<lparr>c_logs := LogSignFailed (message BigInt_NaN) # LogRequestSig
                                  # c_logs c\<rparr>, []))
             \<and> (c_amount c = Some n \<longrightarrow>
                  signAndBroadcast env c
                    = (c\<lparr>c_logs :=
                           LogSignFailed (''Invalid address for Testnet: '' @ js_text (c_address c))
                           # LogRequestSig # c_logs c\<rparr>, []))"
  proof (intro impI conjI)
    assume h: "truthy (c_tx_hex c) \<and> truthy (c_address c) \<and> parse_tx env (c_tx_hex c) = Inr t
              \<and> tx_ins t \<noteq> []" and n: "c_amount c = None"
    then obtain in0 rest where "tx_ins t = in0 # rest" by (cases "tx_ins t") auto
    with h n have "build_single env c = Inl BigInt_NaN"
      by (simp add: build_single_def js_nth_0 Let_def BigInt_times2_def)
    with h show "signAndBroadcast env c
                  = (c\<lparr>c_logs := LogSignFailed (message BigInt_NaN) # LogRequestSig
                                  # c_logs c\<rparr>, [])"
      by (simp add: signAndBroadcast_def Let_def sign_failed_def log_def)
  next
    assume h: "truthy (c_tx_hex c) \<and> truthy (c_address c) \<and> parse_tx env (c_tx_hex c) = Inr t
              \<and> tx_ins t \<noteq> []" and n: "c_amount c = Some n"
    then obtain in0 rest where "tx_ins t = in0 # rest" by (cases "tx_ins t") auto
    with h n a have "build_single env c = Inl (InvalidAddress (c_address c))"
      by (simp add: build_single_def js_nth_0 Let_def BigInt_times2_def)
    with h show "signAndBroadcast env c
                    = (c\<lparr>c_logs :=
                           LogSignFailed (''Invalid address for Testnet: '' @ js_text (c_address c))
                           # LogRequestSig # c_logs c\<rparr>, [])"
      by (simp add: signAndBroadcast_def Let_def sign_failed_def log_def InvalidAddress_def)
  qed
  from 1 2 3 4 show ?thesis by blast
qed

text \<open>
  C9 on the session reached by creating contract 42 at a backend that hands out the
  main-network address \<^verbatim>\<open>bc1pmainnet\<close>, depositing, and receiving the
  \<^verbatim>\<open>ACTION_REQUIRED\<close> event: signing ends with the \<^verbatim>\<open>RangeError\<close>, not with the
  address error; and on a contract object that carries an amount it ends with the
  address error.
\<close>

theorem signAndBroadcast_invalid_address_witness:
  "c_address fx_pending_mainnet = Str ''bc1pmainnet''
   \<and> toOutputScript fx_env ''bc1pmainnet'' = Inl (Error ''has an invalid prefix'')
   \<and> signAndBroadcast fx_env fx_pending_mainnet
       = (fx_pending_mainnet\<lparr>c_logs :=
            LogSignFailed
              ''The number NaN cannot be converted to a BigInt because it is not an integer''
            # LogRequestSig # c_logs fx_pending_mainnet\<rparr>, [])
   \<and> signAndBroadcast fx_env ((fx_funded ''rawtx'')\<lparr>c_address := Str ''bc1pmainnet''\<rparr>)
       = ((fx_funded ''rawtx'')\<lparr>c_address := Str ''bc1pmainnet'',
             c_logs := [LogSignFailed ''Invalid address for Testnet: bc1pmainnet'',
                        LogRequestSig]\<rparr>, [])"
proof -
  let ?c = "(fx_funded ''rawtx'')\<lparr>c_address := Str ''bc1pmainnet''\<rparr>"
  have d: "toOutputScript fx_env ''bc1pmainnet'' = Inl (Error ''has an invalid prefix'')"
    by (simp add: fx_env_def)
  have h1: "\<forall>a b. c_address fx_pending_mainnet = Str a \<longrightarrow> toOutputScript fx_env a \<noteq> Inr b"
    by (simp add: fx_pending_mainnet_eq fx_env_def)
  have g1: "truthy (c_tx_hex fx_pending_mainnet) \<and> truthy (c_address fx_pending_mainnet)
      \<and> parse_tx fx_env (c_tx_hex fx_pending_mainnet) = Inr fx_tx \<and> tx_ins fx_tx \<noteq> []
      \<and> c_amount fx_pending_mainnet = None"
    by (simp add: fx_pending_mainnet_eq fx_env_def parse_tx_def fx_tx_def)
  have h2: "\<forall>a b. c_address ?c = Str a \<longrightarrow> toOutputScript fx_env a \<noteq> Inr b"
    by (simp add: fx_funded_def fx_env_def)
  have g2: "truthy (c_tx_hex ?c) \<and> truthy (c_address ?c) \<and> parse_tx fx_env (c_tx_hex ?c) = Inr fx_tx
      \<and> tx_ins fx_tx \<noteq> [] \<and> c_amount ?c = Some 1000"
    by (simp add: fx_funded_def fx_env_def parse_tx_def fx_tx_def)
  from signAndBroadcast_invalid_address [OF h1, where t = fx_tx] g1
  have 1: "signAndBroadcast fx_env fx_pending_mainnet
       = (fx_pending_mainnet\<lparr>c_logs := LogSignFailed (message BigInt_NaN) # LogRequestSig
                                           # c_logs fx_pending_mainnet\<rparr>, [])"
    by blast
  from signAndBroadcast_invalid_address [OF h2, where t = fx_tx and n = 1000] g2
  have 2: "signAndBroadcast fx_env ?c
       = (?c\<lparr>c_logs := LogSignFailed (''Invalid address for Testnet: '' @ js_text (c_address ?c))
                          # LogRequestSig # c_logs ?c\<rparr>, [])"
    by blast
  from d 1 2 show ?thesis
    by (simp add: BigInt_NaN_def fx_pending_mainnet_eq) (simp add: fx_funded_def)
qed

text \<open>
  C1.  No operation of the script assigns \<^verbatim>\<open>currentContract.amount\<close>, and the object is
  created without it.  With the amount undefined the signing path never reaches the
  wallet: whenever the pending transaction parses and has an input, the operation ends
  at \<^verbatim>\<open>BigInt(currentContract.amount * 2)\<close> with a \<^verbatim>\<open>RangeError\<close>, before any PSBT input
  exists.
\<close>

theorem signAndBroadcast_amount_undefined:
  "c_amount currentContract_init = None
   \<and> c_amount (onmessage data c) = c_amount c
   \<and> c_amount (fst (createAndDeposit env wl form c)) = c_amount c
   \<and> c_amount (fst (signAndBroadcast env c)) = c_amount c
   \<and> c_amount (fst (claimAll env wl c)) = c_amount c
   \<and> c_amount (fst (snd (connectWallet env wl c))) = c_amount c
   \<and> (c_amount c = None \<longrightarrow>
        (\<forall>x \<in> set (snd (signAndBroadcast env c)). \<not> is_SignPsbt x \<and> \<not> is_PushTx x))
   \<and> (c_amount c = None \<and> truthy (c_tx_hex c) \<and> truthy (c_address c)
        \<and> parse_tx env (c_tx_hex c) = Inr t \<and> tx_ins t \<noteq> [] \<longrightarrow>
        signAndBroadcast env c = (sign_failed BigInt_NaN (log LogRequestSig c), []))"
proof -
  have 1: "c_amount (onmessage data c) = c_amount c"
    by (simp add: onmessage_def Let_def)
  have 2: "c_amount (fst (createAndDeposit env wl form c)) = c_amount c"
    by (rule createAndDeposit_amount)
  have 3: "c_amount (fst (signAndBroadcast env c)) = c_amount c"
    by (simp add: signAndBroadcast_def Let_def sign_failed_def
        split: sum.splits option.splits prod.splits)
  have 4: "c_amount (fst (claimAll env wl c)) = c_amount c"
    by (simp add: claimAll_def Let_def claim_failed_def
        split: sum.splits option.splits prod.splits)
  have 5: "c_amount (fst (snd (connectWallet env wl c))) = c_amount c"
    by (rule connectWallet_amount)
  have 6: "c_amount c = None \<longrightarrow>
        (\<forall>x \<in> set (snd (signAndBroadcast env c)). \<not> is_SignPsbt x \<and> \<not> is_PushTx x)"
  proof
    assume "c_amount c = None"
    from build_single_amount_undefined [OF this, of env]
    obtain e where "build_single env c = Inl e" by blast
    then show "\<forall>x \<in> set (snd (signAndBroadcast env c)). \<not> is_SignPsbt x \<and> \<not> is_PushTx x"
      by (simp add: signAndBroadcast_def Let_def)
  qed
  have 7: "c_amount c = None \<and> truthy (c_tx_hex c) \<and> truthy (c_address c)
        \<and> parse_tx env (c_tx_hex c) = Inr t \<and> tx_ins t \<noteq> [] \<longrightarrow>
        signAndBroadcast env c = (sign_failed BigInt_NaN (log LogRequestSig c), [])"
  proof
    assume h: "c_amount c = None \<and> truthy (c_tx_hex c) \<and> truthy (c_address c)
        \<and> parse_tx env (c_tx_hex c) = Inr t \<and> tx_ins t \<noteq> []"
    then obtain in0 rest where "tx_ins t = in0 # rest" by (cases "tx_ins t") auto
    with h have "build_single env c = Inl BigInt_NaN"
      by (simp add: build_single_def js_nth_0 Let_def BigInt_times2_def)
    with h show "signAndBroadcast env c = (sign_failed BigInt_NaN (log LogRequestSig c), [])"
      by (simp add: signAndBroadcast_def Let_def)
  qed
  from 1 2 3 4 5 6 7 show ?thesis by (simp add: currentContract_init_def)
qed

text \<open>
  C1 on the session reached by creating contract 42, depositing, and receiving its
  \<^verbatim>\<open>ACTION_REQUIRED\<close> event: the amount is undefined and signing ends with the
  \<^verbatim>\<open>RangeError\<close>; no witness-UTXO value is ever formed.
\<close>

theorem signAndBroadcast_amount_undefined_witness:
  "c_amount fx_pending = None
   \<and> c_status fx_pending = Str ''WAITING_USER_SIG''
   \<and> signAndBroadcast fx_env fx_pending
       = (sign_failed BigInt_NaN (log LogRequestSig fx_pending), [])"
proof -
  have h: "c_amount fx_pending = None \<and> truthy (c_tx_hex fx_pending)
      \<and> truthy (c_address fx_pending) \<and> parse_tx fx_env (c_tx_hex fx_pending) = Inr fx_tx
      \<and> tx_ins fx_tx \<noteq> []"
    by (simp add: fx_pending_eq parse_tx_def fx_env_def fx_tx_def)
  from signAndBroadcast_amount_undefined [where c = fx_pending and env = fx_env and t = fx_tx] h
  show ?thesis by (simp add: fx_pending_eq)
qed

section \<open>Properties of the batch claim\<close>

text \<open>
  C2, as amended.  When the PSBT of a batch claim is assembled, it has as many inputs as
  the backend sent metadata records; record number \<open>k\<close> carries index \<open>k\<close>, and PSBT
  input \<open>k\<close> holds the outpoint of input \<open>k\<close> of the unsigned transaction together with
  that record's UTXO, leaf script and oracle signature: the inputs stand in the order
  of the transaction's inputs.  The script does not compare a record's index with its
  position and has no error of its own for a mismatch.  A record whose index differs
  from its position still ends the assembly with an error, raised by the property
  access or the library call that meets the misplaced index, and then the operation
  has done nothing but ask the backend: no signing request, no broadcast.
\<close>

theorem claim_build_aligned:
  "(claim_build env data = Inr q \<longrightarrow>
      (\<exists>t. parse_tx env (cl_unsigned_tx_hex data) = Inr t
         \<and> length (psbt_inputs q) = length (cl_psbt_inputs data)
         \<and> (\<forall>k<length (cl_psbt_inputs data).
               m_index (cl_psbt_inputs data ! k) = int k \<and> k < length (tx_ins t)
               \<and> (\<exists>leaf s. m_tapLeafScript (cl_psbt_inputs data ! k) = Some leaf
                     \<and> m_oracleSig (cl_psbt_inputs data ! k) = Some s
                     \<and> psbt_inputs q ! k
                         = claim_input (tx_ins t ! k) (cl_psbt_inputs data ! k) leaf s))))
   \<and> ((\<exists>k<length (cl_psbt_inputs data). m_index (cl_psbt_inputs data ! k) \<noteq> int k) \<longrightarrow>
        (\<exists>e. claim_build env data = Inl e)
        \<and> (truthy (w_publicKey wl) \<and> post_claim_all env (w_publicKey wl) = Inr data \<longrightarrow>
             snd (claimAll env wl c) = [FetchClaimAll (w_publicKey wl)]))"
proof -
  have ok: "claim_build env data = Inr q \<longrightarrow>
      (\<exists>t. parse_tx env (cl_unsigned_tx_hex data) = Inr t
         \<and> length (psbt_inputs q) = length (cl_psbt_inputs data)
         \<and> (\<forall>k<length (cl_psbt_inputs data).
               m_index (cl_psbt_inputs data ! k) = int k \<and> k < length (tx_ins t)
               \<and> (\<exists>leaf s. m_tapLeafScript (cl_psbt_inputs data ! k) = Some leaf
                     \<and> m_oracleSig (cl_psbt_inputs data ! k) = Some s
                     \<and> psbt_inputs q ! k
                         = claim_input (tx_ins t ! k) (cl_psbt_inputs data ! k) leaf s)))"
    for q
  proof
    assume "claim_build env data = Inr q"
    then obtain t p where t: "parse_tx env (cl_unsigned_tx_hex data) = Inr t"
      and p: "add_claim_inputs env t new_Psbt (cl_psbt_inputs data) = Inr p"
      and o: "add_outputs env p (tx_outs t) = Inr q"
      by (auto simp add: claim_build_def andThen_Inr split: if_splits)
    have "\<forall>j<length (psbt_inputs new_Psbt). j < length (tx_ins t)
            \<and> outpoint (psbt_inputs new_Psbt ! j) = (tin_hash (tx_ins t ! j), tin_index (tx_ins t ! j))"
      by (simp add: new_Psbt_def)
    from add_claim_inputs_inv [OF p this] obtain qs where
      qs: "psbt_inputs p = qs" "length qs = length (cl_psbt_inputs data)"
          "\<forall>k<length (cl_psbt_inputs data).
              m_index (cl_psbt_inputs data ! k) = int k \<and> k < length (tx_ins t)
              \<and> (\<exists>leaf s. m_tapLeafScript (cl_psbt_inputs data ! k) = Some leaf
                    \<and> m_oracleSig (cl_psbt_inputs data ! k) = Some s
                    \<and> qs ! k = claim_input (tx_ins t ! k) (cl_psbt_inputs data ! k) leaf s)"
      by (auto simp add: new_Psbt_def)
    from add_outputs_inputs [OF o] qs t
    show "\<exists>t. parse_tx env (cl_unsigned_tx_hex data) = Inr t
         \<and> length (psbt_inputs q) = length (cl_psbt_inputs data)
         \<and> (\<forall>k<length (cl_psbt_inputs data).
               m_index (cl_psbt_inputs data ! k) = int k \<and> k < length (tx_ins t)
               \<and> (\<exists>leaf s. m_tapLeafScript (cl_psbt_inputs data ! k) = Some leaf
                     \<and> m_oracleSig (cl_psbt_inputs data ! k) = Some s
                     \<and> psbt_inputs q ! k
                         = claim_input (tx_ins t ! k) (cl_psbt_inputs data ! k) leaf s))"
      by (intro exI [of _ t]) simp
  qed
  have bad: "(\<exists>k<length (cl_psbt_inputs data). m_index (cl_psbt_inputs data ! k) \<noteq> int k) \<longrightarrow>
        (\<exists>e. claim_build env data = Inl e)
        \<and> (truthy (w_publicKey wl) \<and> post_claim_all env (w_publicKey wl) = Inr data \<longrightarrow>
             snd (claimAll env wl c) = [FetchClaimAll (w_publicKey wl)])"
  proof
    assume mis: "\<exists>k<length (cl_psbt_inputs data). m_index (cl_psbt_inputs data ! k) \<noteq> int k"
    have f: "\<exists>e. claim_build env data = Inl e"
    proof (cases "claim_build env data")
      case (Inl e) then show ?thesis by blast
    next
      case (Inr q')
      with ok [of q'] mis show ?thesis by auto
    qed
    then obtain e where e: "claim_build env data = Inl e" by blast
    have "truthy (w_publicKey wl) \<and> post_claim_all env (w_publicKey wl) = Inr data \<longrightarrow>
             snd (claimAll env wl c) = [FetchClaimAll (w_publicKey wl)]"
      using e by (simp add: claimAll_def Let_def)
    with f show "(\<exists>e. claim_build env data = Inl e)
        \<and> (truthy (w_publicKey wl) \<and> post_claim_all env (w_publicKey wl) = Inr data \<longrightarrow>
             snd (claimAll env wl c) = [FetchClaimAll (w_publicKey wl)])"
      by blast
  qed
  from ok [of q] bad show ?thesis by blast
qed

text \<open>
  The amended C2 on the worked reply with records 0 and 1, and on the same reply with
  the two records swapped.
\<close>

theorem claim_build_aligned_witness:
  "(\<exists>q. claim_build fx_env fx_claim_reply = Inr q \<and> length (psbt_inputs q) = 2
        \<and> psbt_inputs q ! 1 = claim_input (tx_ins fx_batch_tx ! 1) (fx_meta 1) fx_leaf fx_oracle_sig)
   \<and> (\<exists>e. claim_build fx_env (fx_claim_reply\<lparr>cl_psbt_inputs := [fx_meta 1, fx_meta 0]\<rparr>) = Inl e)
   \<and> snd (claimAll (fx_env\<lparr>post_claim_all :=
                       (\<lambda>pk. Inr (fx_claim_reply\<lparr>cl_psbt_inputs := [fx_meta 1, fx_meta 0]\<rparr>))\<rparr>)
             fx_wallet currentContract_init)
       = [FetchClaimAll (Str ''02ab'')]"
proof -
  have b: "\<exists>q. claim_build fx_env fx_claim_reply = Inr q"
    by (simp add: fx_defs op_defs)
  then obtain q where q: "claim_build fx_env fx_claim_reply = Inr q" by blast
  have t: "parse_tx fx_env (cl_unsigned_tx_hex fx_claim_reply) = Inr fx_batch_tx"
    by (simp add: fx_claim_reply_def fx_env_def parse_tx_def)
  have m: "cl_psbt_inputs fx_claim_reply = [fx_meta 0, fx_meta 1]"
    by (simp add: fx_claim_reply_def)
  have m1: "m_tapLeafScript (fx_meta 1) = Some fx_leaf" "m_oracleSig (fx_meta 1) = Some fx_oracle_sig"
    by (simp_all add: fx_meta_def)
  from claim_build_aligned [where env = fx_env and data = fx_claim_reply and q = q] q t m
  have "length (psbt_inputs q) = 2
        \<and> (\<forall>k<2. \<exists>leaf s. m_tapLeafScript ([fx_meta 0, fx_meta 1] ! k) = Some leaf
                     \<and> m_oracleSig ([fx_meta 0, fx_meta 1] ! k) = Some s
                     \<and> psbt_inputs q ! k
                         = claim_input (tx_ins fx_batch_tx ! k) ([fx_meta 0, fx_meta 1] ! k) leaf s)"
    by auto
  then have "length (psbt_inputs q) = 2
        \<and> psbt_inputs q ! 1 = claim_input (tx_ins fx_batch_tx ! 1) (fx_meta 1) fx_leaf fx_oracle_sig"
    using m1 by (auto dest: spec [of _ 1])
  with q have 1: "\<exists>q. claim_build fx_env fx_claim_reply = Inr q \<and> length (psbt_inputs q) = 2
        \<and> psbt_inputs q ! 1 = claim_input (tx_ins fx_batch_tx ! 1) (fx_meta 1) fx_leaf fx_oracle_sig"
    by blast
  let ?d = "fx_claim_reply\<lparr>cl_psbt_inputs := [fx_meta 1, fx_meta 0]\<rparr>"
  let ?env = "fx_env\<lparr>post_claim_all := (\<lambda>pk. Inr ?d)\<rparr>"
  have mis: "\<exists>k<length (cl_psbt_inputs ?d). m_index (cl_psbt_inputs ?d ! k) \<noteq> int k"
    by (intro exI [of _ 0]) (simp add: fx_meta_def)
  with claim_build_aligned [where env = fx_env and data = ?d]
  have 2: "\<exists>e. claim_build fx_env ?d = Inl e" by blast
  have "truthy (w_publicKey fx_wallet) \<and> post_claim_all ?env (w_publicKey fx_wallet) = Inr ?d"
    by (simp add: fx_wallet_def)
  with mis claim_build_aligned
         [where env = ?env and data = ?d and wl = fx_wallet and c = currentContract_init]
  have 3: "snd (claimAll ?env fx_wallet currentContract_init)
             = [FetchClaimAll (w_publicKey fx_wallet)]"
    by blast
  from 1 2 3 show ?thesis by (simp add: fx_wallet_def)
qed

text \<open>
  C2 as stated fails in its error: on the reply whose only record carries index 1, the
  input is appended and then \<^verbatim>\<open>updateInput(1, ...)\<close> meets a PSBT without input 1; the
  assembly ends with the \<^verbatim>\<open>TypeError\<close> of that call, which is not an
  \<open>InputIndexMismatch\<close>.
\<close>

theorem claim_build_mismatch_counterexample:
  "m_index (cl_psbt_inputs (fx_claim_reply\<lparr>cl_psbt_inputs := [fx_meta 1]\<rparr>) ! 0) = 1
   \<and> claim_build fx_env (fx_claim_reply\<lparr>cl_psbt_inputs := [fx_meta 1]\<rparr>)
       = Inl (TypeError ''Cannot read properties of undefined (reading tapMerkleRoot)'')
   \<and> claim_build fx_env (fx_claim_reply\<lparr>cl_psbt_inputs := [fx_meta 1]\<rparr>)
       \<noteq> Inl InputIndexMismatch"
  by (simp add: fx_defs op_defs InputIndexMismatch_def)



section \<open>Properties of the wallet calls\<close>



section \<open>Properties of create and deposit\<close>

text \<open>
  C8.  Let the backend have created the contract and returned its id, and let the
  deposit fail, because the wallet's \<^verbatim>\<open>sendBitcoin\<close> throws or because no provider is
  held.  The \<^verbatim>\<open>catch\<close> block decides by \<^verbatim>\<open>if (currentContract.id)\<close> whether there is a
  contract to clean up.  For an id that JavaScript counts as true, the last thing the
  flow does to the outside is the request \<^verbatim>\<open>cancel_contract\<close> with that id, issued once,
  and afterwards the local id is \<^verbatim>\<open>null\<close> and address and status are empty; whether the
  cancel request succeeds or throws changes the newest log entry only, the deletion
  notice or the cleanup failure with the error's message.  For an id that JavaScript
  counts as false, the number 0 among them, the failure is logged and nothing else
  happens: no cancel request is sent, and the local contract keeps that id, the deposit
  address and the status \<^verbatim>\<open>CREATED\<close>.
\<close>

theorem createAndDeposit_compensation:
  assumes "w_connected wl"
    and "post_create_contract env (w_publicKey wl) (f_amount form) (f_direction form) = Inr data"
    and "cr_status data = Str ''success''"
    and "provider_of env (currentProvider wl) = None
         \<or> (\<exists>pr e. provider_of env (currentProvider wl) = Some pr
               \<and> sendBitcoin pr (cr_deposit_address data) (f_amount form) = Inl e)"
  shows "(truthy (cr_contract_id data) \<longrightarrow>
            last (snd (createAndDeposit env wl form c))
              = FetchCancelContract (cr_contract_id data)
            \<and> length (filter (\<lambda>x. x = FetchCancelContract (cr_contract_id data))
                        (snd (createAndDeposit env wl form c))) = 1
            \<and> c_id (fst (createAndDeposit env wl form c)) = Null
            \<and> c_address (fst (createAndDeposit env wl form c)) = Str []
            \<and> c_status (fst (createAndDeposit env wl form c)) = Str []
            \<and> (\<exists>older. c_logs (fst (createAndDeposit env wl form c))
                  = (case post_cancel_contract env (cr_contract_id data) of
                       None \<Rightarrow> LogDeleted (cr_contract_id data)
                     | Some cleanupError \<Rightarrow> LogCleanupFailed (message cleanupError))
                    # LogCleaning # older))
         \<and> (\<not> truthy (cr_contract_id data) \<longrightarrow>
              (\<forall>i. FetchCancelContract i \<notin> set (snd (createAndDeposit env wl form c)))
              \<and> c_id (fst (createAndDeposit env wl form c)) = cr_contract_id data
              \<and> c_address (fst (createAndDeposit env wl form c)) = cr_deposit_address data
              \<and> c_status (fst (createAndDeposit env wl form c)) = Str ''CREATED''
              \<and> (\<exists>m older. c_logs (fst (createAndDeposit env wl form c))
                    = LogFlowError m # LogSending (f_amount form) # older))"
  using assms
  by (auto simp add: createAndDeposit_def createAndDeposit_catch_def Let_def
      split: option.splits)

text \<open>
  C8 with a wallet that refuses to send.  The backend numbers the contract 0: no cancel
  request is sent and the local contract stays at id 0 with status \<^verbatim>\<open>CREATED\<close>.  The
  backend numbers it 42: the cancel request is sent and the local contract is cleared,
  also when the cancel request throws.
\<close>

theorem createAndDeposit_compensation_witness:
  "createAndDeposit fx_env_zero fx_wallet fx_form currentContract_init
     = (\<lparr>c_id = Num 0, c_address = Str ''tb1pdeposit'', c_status = Str ''CREATED'',
         c_tx_hex = Str [],
         c_logs = [LogFlowError ''User rejected the request.'', LogSending 1000,
                   LogDepositTo (Str ''tb1pdeposit''), LogCreated (Num 0), LogCreating],
         c_amount = None\<rparr>,
        [FetchCreateContract (Str ''02ab'') 1000 ''LONG'', SendBitcoin (Str ''tb1pdeposit'') 1000])
   \<and> snd (createAndDeposit (fx_env\<lparr>window_unisat := Some fx_idle_provider\<rparr>) fx_wallet fx_form
          currentContract_init)
     = [FetchCreateContract (Str ''02ab'') 1000 ''LONG'', SendBitcoin (Str ''tb1pdeposit'') 1000,
        FetchCancelContract (Num 42)]
   \<and> c_id (fst (createAndDeposit (fx_env\<lparr>window_unisat := Some fx_idle_provider\<rparr>) fx_wallet
                   fx_form currentContract_init)) = Null
   \<and> c_status (fst (createAndDeposit
                       (fx_env\<lparr>window_unisat := Some fx_idle_provider,
                               post_cancel_contract := (\<lambda>i. Some (TypeError ''Failed to fetch''))\<rparr>)
                       fx_wallet fx_form currentContract_init)) = Str []
   \<and> hd (c_logs (fst (createAndDeposit
                       (fx_env\<lparr>window_unisat := Some fx_idle_provider,
                               post_cancel_contract := (\<lambda>i. Some (TypeError ''Failed to fetch''))\<rparr>)
                       fx_wallet fx_form currentContract_init)))
       = LogCleanupFailed ''Failed to fetch''"
proof -
  let ?e1 = "fx_env\<lparr>window_unisat := Some fx_idle_provider\<rparr>"
  let ?e2 = "fx_env\<lparr>window_unisat := Some fx_idle_provider,
                   post_cancel_contract := (\<lambda>i. Some (TypeError ''Failed to fetch''))\<rparr>"
  let ?data = "\<lparr>cr_status = Str ''success'', cr_contract_id = Num 42,
                cr_deposit_address = Str ''tb1pdeposit''\<rparr>"
  let ?zero = "\<lparr>cr_status = Str ''success'', cr_contract_id = Num 0,
                cr_deposit_address = Str ''tb1pdeposit''\<rparr>"
  have h1: "w_connected fx_wallet"
    and h2: "post_create_contract ?e1 (w_publicKey fx_wallet) (f_amount fx_form)
               (f_direction fx_form) = Inr ?data"
    and h2': "post_create_contract ?e2 (w_publicKey fx_wallet) (f_amount fx_form)
               (f_direction fx_form) = Inr ?data"
    and h2z: "post_create_contract fx_env_zero (w_publicKey fx_wallet) (f_amount fx_form)
               (f_direction fx_form) = Inr ?zero"
    and h3: "cr_status ?data = Str ''success''"
    and h3z: "cr_status ?zero = Str ''success''"
    and h4: "truthy (cr_contract_id ?data)"
    and h4z: "\<not> truthy (cr_contract_id ?zero)"
    and h5: "provider_of ?e1 (currentProvider fx_wallet) = None
         \<or> (\<exists>pr e. provider_of ?e1 (currentProvider fx_wallet) = Some pr
               \<and> sendBitcoin pr (cr_deposit_address ?data) (f_amount fx_form) = Inl e)"
    and h5': "provider_of ?e2 (currentProvider fx_wallet) = None
         \<or> (\<exists>pr e. provider_of ?e2 (currentProvider fx_wallet) = Some pr
               \<and> sendBitcoin pr (cr_deposit_address ?data) (f_amount fx_form) = Inl e)"
    and h5z: "provider_of fx_env_zero (currentProvider fx_wallet) = None
         \<or> (\<exists>pr e. provider_of fx_env_zero (currentProvider fx_wallet) = Some pr
               \<and> sendBitcoin pr (cr_deposit_address ?zero) (f_amount fx_form) = Inl e)"
    by (simp_all add: fx_wallet_def fx_env_def fx_env_zero_def fx_form_def provider_of_def
        fx_idle_provider_def fx_provider_def)
  have calls: "snd (createAndDeposit ?e1 fx_wallet fx_form currentContract_init)
     = [FetchCreateContract (Str ''02ab'') 1000 ''LONG'', SendBitcoin (Str ''tb1pdeposit'') 1000,
        FetchCancelContract (Num 42)]"
    by (simp add: createAndDeposit_def createAndDeposit_catch_def Let_def provider_of_def
        fx_defs)
  have zero: "createAndDeposit fx_env_zero fx_wallet fx_form currentContract_init
     = (\<lparr>c_id = Num 0, c_address = Str ''tb1pdeposit'', c_status = Str ''CREATED'',
         c_tx_hex = Str [],
         c_logs = [LogFlowError ''User rejected the request.'', LogSending 1000,
                   LogDepositTo (Str ''tb1pdeposit''), LogCreated (Num 0), LogCreating],
         c_amount = None\<rparr>,
        [FetchCreateContract (Str ''02ab'') 1000 ''LONG'', SendBitcoin (Str ''tb1pdeposit'') 1000])"
    by (simp add: createAndDeposit_def createAndDeposit_catch_def Let_def provider_of_def
        fx_env_zero_def fx_defs log_def)
  from createAndDeposit_compensation [OF h1 h2 h3 h5, of currentContract_init]
       createAndDeposit_compensation [OF h1 h2' h3 h5', of currentContract_init]
       createAndDeposit_compensation [OF h1 h2z h3z h5z, of currentContract_init]
       h4 h4z calls zero
  show ?thesis by (auto simp add: fx_env_def)
qed


end
